theory Spec2Isabelle
  imports Main
begin

section \<open>The syntax tree read by \<open>robot/writer/filewriters.py\<close>\<close>

text \<open>
  The writer works on the tree built by the parser. Token types are the constants of
  \<open>robot.parsing.lexer.Token\<close> that the writer names, a constructor for the keyword table
  header, one for arguments, and \<open>OTHER\<close> for every remaining kind (the setting names among
  them).
\<close>

datatype token_type =
    SETTING_HEADER
  | VARIABLE_HEADER
  | TESTCASE_HEADER
  | KEYWORD_HEADER
  | NAME
  | KEYWORD
  | ARGUMENT
  | SEPARATOR
  | EOL
  | OLD_FOR_INDENT
  | OTHER string

record token =
  tk_type :: token_type
  tk_value :: string

text \<open>
  Modelled from the spec: the Statement class is not part of this file. A statement is an
  ordered sequence of tokens grouped into logical lines, with a kind used for dispatch;
  \<open>statement.tokens\<close> is the sequence of all its tokens, in order.
\<close>

record statement =
  st_type :: token_type
  lines :: "token list list"

definition tokens :: "statement \<Rightarrow> token list" where
  "tokens s = concat (lines s)"

text \<open>
  Modelled from the spec: a loop has a header statement, a body of statements and an end
  statement; a test or keyword has a name statement and a body of statements and loops;
  a section has a type, a header statement (its tokens are the column titles) and its
  statements and blocks in document order; the document is the sequence of its sections.
  The generic traversal of \<open>ast.NodeVisitor\<close> visits these children in this order.
\<close>

record forloop =
  fl_header :: statement
  fl_body :: "statement list"
  fl_end :: statement

datatype body_item = BStatement statement | BForLoop forloop

record test_or_keyword =
  tk_name :: statement
  tk_body :: "body_item list"

datatype section_item = SStatement statement | STestOrKeyword test_or_keyword

record section_node =
  sec_type :: token_type
  sec_header :: statement
  sec_body :: "section_item list"

type_synonym model = "section_node list"

datatype error = IndexError

section \<open>Python's string and list operations\<close>

text \<open>Strings are lists of characters; the operations below are Python's on ASCII text.\<close>

definition space :: char where
  "space = CHR '' ''"

definition newline :: string where
  "newline = [CHR 0x0A]"

text \<open>\<open>n * ' '\<close>: a count of zero or less gives the empty string.\<close>

definition spaces :: "int \<Rightarrow> string" where
  "spaces n = replicate (nat n) space"

text \<open>\<open>s[:-4]\<close>\<close>

definition drop_last4 :: "'a list \<Rightarrow> 'a list" where
  "drop_last4 s = take (length s - 4) s"

text \<open>\<open>s[1:-1]\<close>\<close>

definition strip_ends :: "'a list \<Rightarrow> 'a list" where
  "strip_ends s = butlast (tl s)"

definition isspace :: "char \<Rightarrow> bool" where
  "isspace c = (let n = (of_char c :: nat) in (9 \<le> n \<and> n \<le> 13) \<or> (28 \<le> n \<and> n \<le> 32))"

definition lstrip :: "string \<Rightarrow> string" where
  "lstrip s = dropWhile isspace s"

definition rstrip :: "string \<Rightarrow> string" where
  "rstrip s = rev (dropWhile isspace (rev s))"

definition strip :: "string \<Rightarrow> string" where
  "strip s = rstrip (lstrip s)"

definition isupper :: "char \<Rightarrow> bool" where
  "isupper c = (let n = (of_char c :: nat) in 65 \<le> n \<and> n \<le> 90)"

definition islower :: "char \<Rightarrow> bool" where
  "islower c = (let n = (of_char c :: nat) in 97 \<le> n \<and> n \<le> 122)"

definition lower_char :: "char \<Rightarrow> char" where
  "lower_char c = (if isupper c then char_of ((of_char c :: nat) + 32) else c)"

definition upper_char :: "char \<Rightarrow> char" where
  "upper_char c = (if islower c then char_of ((of_char c :: nat) - 32) else c)"

definition lower :: "string \<Rightarrow> string" where
  "lower s = map lower_char s"

text \<open>
  \<open>str.title\<close>: a cased character after an uncased one is upper-cased, a cased character
  after a cased one is lower-cased.
\<close>

fun title_from :: "bool \<Rightarrow> string \<Rightarrow> string" where
  "title_from prev_cased [] = []"
| "title_from prev_cased (c # cs) =
     (if prev_cased then lower_char c else upper_char c)
       # title_from (isupper c \<or> islower c) cs"

definition title :: "string \<Rightarrow> string" where
  "title s = title_from False s"

definition startswith :: "string \<Rightarrow> string \<Rightarrow> bool" where
  "startswith s p = (take (length p) s = p)"

text \<open>\<open>s.ljust(n)\<close>\<close>

definition ljust :: "string \<Rightarrow> nat \<Rightarrow> string" where
  "ljust s n = s @ replicate (n - length s) space"

text \<open>\<open>sep.join(values)\<close>\<close>

fun join :: "string \<Rightarrow> string list \<Rightarrow> string" where
  "join sep [] = []"
| "join sep [v] = v"
| "join sep (v # vs) = v @ sep @ join sep vs"

section \<open>SeparatorRemover\<close>

text \<open>
  \<open>_add_whitespace_to_header_values\<close>: the loop over \<open>statement.tokens\<close>. The tokens
  already passed are \<open>seen\<close>; \<open>prev\<close> is the position in \<open>seen\<close> of the token it refers
  to, or None. \<open>prev.value += ...\<close> changes that token where it stands in the list.
\<close>

definition append_value :: "token \<Rightarrow> string \<Rightarrow> token" where
  "append_value t s = t\<lparr>tk_value := tk_value t @ s\<rparr>"

fun add_whitespace_loop :: "token list \<Rightarrow> nat option \<Rightarrow> token list \<Rightarrow> token list" where
  "add_whitespace_loop seen prev [] = seen"
| "add_whitespace_loop seen prev (t # ts) =
     (if tk_type t = SEPARATOR \<and> prev \<noteq> None then
        add_whitespace_loop
          (seen[the prev := append_value (seen ! the prev) (drop_last4 (tk_value t))] @ [t])
          prev ts
      else if tk_type t = TESTCASE_HEADER then
        add_whitespace_loop (seen @ [t]) (Some (length seen)) ts
      else
        add_whitespace_loop (seen @ [t]) None ts)"

definition add_whitespace_to_header_values :: "token list \<Rightarrow> token list" where
  "add_whitespace_to_header_values ts = add_whitespace_loop [] None ts"

definition structural :: "token_type \<Rightarrow> bool" where
  "structural ty = (ty = EOL \<or> ty = SEPARATOR \<or> ty = OLD_FOR_INDENT)"

text \<open>
  \<open>SeparatorRemover.visit_Statement\<close>, from \<open>statement.type\<close> and \<open>statement.tokens\<close> to
  the list assigned to \<open>statement.tokens\<close>.
\<close>

definition SeparatorRemover_visit_Statement :: "token_type \<Rightarrow> token list \<Rightarrow> token list" where
  "SeparatorRemover_visit_Statement ty ts =
     (let ts' = (if ty = TESTCASE_HEADER then add_whitespace_to_header_values ts else ts)
      in filter (\<lambda>t. \<not> structural (tk_type t)) ts')"

text \<open>
  What the header loop computes, read off the list: every header title token receives the
  trimmed texts of the whole run of separators that follows it.
\<close>

definition separator_run :: "token list \<Rightarrow> string" where
  "separator_run ts =
     concat (map (\<lambda>t. drop_last4 (tk_value t)) (takeWhile (\<lambda>t. tk_type t = SEPARATOR) ts))"

fun with_header_whitespace :: "token list \<Rightarrow> token list" where
  "with_header_whitespace [] = []"
| "with_header_whitespace (t # ts) =
     (if tk_type t = TESTCASE_HEADER then append_value t (separator_run ts) else t)
       # with_header_whitespace ts"

text \<open>
  The same read with the first separator only, the one that immediately follows the title,
  and the lists in which no separator follows another one.
\<close>

fun immediate_header_whitespace :: "token list \<Rightarrow> token list" where
  "immediate_header_whitespace [] = []"
| "immediate_header_whitespace [t] = [t]"
| "immediate_header_whitespace (t # u # ts) =
     (if tk_type t = TESTCASE_HEADER \<and> tk_type u = SEPARATOR
      then append_value t (drop_last4 (tk_value u)) else t)
       # immediate_header_whitespace (u # ts)"

fun separators_apart :: "token list \<Rightarrow> bool" where
  "separators_apart [] = True"
| "separators_apart [t] = True"
| "separators_apart (t # u # ts) =
     (\<not> (tk_type t = SEPARATOR \<and> tk_type u = SEPARATOR) \<and> separators_apart (u # ts))"

section \<open>Failing steps\<close>

text \<open>
  An index out of range raises \<open>IndexError\<close>; a function that can raise returns
  \<open>Inl IndexError\<close> there, and the exception propagates through its callers.
\<close>

definition and_then :: "error + 'a \<Rightarrow> ('a \<Rightarrow> error + 'b) \<Rightarrow> error + 'b" where
  "and_then m f = (case m of Inl e \<Rightarrow> Inl e | Inr x \<Rightarrow> f x)"

text \<open>Visiting the elements of a list in order, each with a visitor that may raise.\<close>

fun mapM :: "('a \<Rightarrow> error + 'b) \<Rightarrow> 'a list \<Rightarrow> error + 'b list" where
  "mapM f [] = Inr []"
| "mapM f (x # xs) =
     (case f x of
        Inl e \<Rightarrow> Inl e
      | Inr y \<Rightarrow> (case mapM f xs of Inl e \<Rightarrow> Inl e | Inr ys \<Rightarrow> Inr (y # ys)))"

text \<open>The same with the visitor's own fields carried from one element to the next.\<close>

fun visit_all :: "('s \<Rightarrow> 'a \<Rightarrow> error + 's \<times> 'a) \<Rightarrow> 's \<Rightarrow> 'a list \<Rightarrow> error + 's \<times> 'a list" where
  "visit_all f s [] = Inr (s, [])"
| "visit_all f s (x # xs) =
     (case f s x of
        Inl e \<Rightarrow> Inl e
      | Inr (s1, y) \<Rightarrow>
          (case visit_all f s1 xs of Inl e \<Rightarrow> Inl e | Inr (s2, ys) \<Rightarrow> Inr (s2, y # ys)))"

text \<open>\<open>len(s)\<close> as a Python integer.\<close>

definition len :: "'a list \<Rightarrow> int" where
  "len s = int (length s)"

text \<open>\<open>statement.tokens[0].value\<close>, read and assigned.\<close>

definition first_value :: "statement \<Rightarrow> error + string" where
  "first_value s = (case tokens s of [] \<Rightarrow> Inl IndexError | t # _ \<Rightarrow> Inr (tk_value t))"

fun set_first_value_lines :: "string \<Rightarrow> token list list \<Rightarrow> token list list" where
  "set_first_value_lines v [] = []"
| "set_first_value_lines v ([] # ls) = [] # set_first_value_lines v ls"
| "set_first_value_lines v ((t # ts) # ls) = (t\<lparr>tk_value := v\<rparr> # ts) # ls"

definition set_first_value :: "string \<Rightarrow> statement \<Rightarrow> error + statement" where
  "set_first_value v s =
     (case tokens s of
        [] \<Rightarrow> Inl IndexError
      | _ # _ \<Rightarrow> Inr (s\<lparr>lines := set_first_value_lines v (lines s)\<rparr>))"

section \<open>The generic traversal\<close>

text \<open>
  A visitor that defines \<open>visit_Statement\<close> only reaches every statement of the tree
  through \<open>generic_visit\<close>, in document order.
\<close>

definition forloop_statements :: "(statement \<Rightarrow> error + statement) \<Rightarrow> forloop \<Rightarrow> error + forloop" where
  "forloop_statements f fl =
     and_then (f (fl_header fl)) (\<lambda>h.
     and_then (mapM f (fl_body fl)) (\<lambda>b.
     and_then (f (fl_end fl)) (\<lambda>e.
       Inr \<lparr>fl_header = h, fl_body = b, fl_end = e\<rparr>)))"

fun body_item_statements :: "(statement \<Rightarrow> error + statement) \<Rightarrow> body_item \<Rightarrow> error + body_item" where
  "body_item_statements f (BStatement s) = and_then (f s) (\<lambda>s'. Inr (BStatement s'))"
| "body_item_statements f (BForLoop fl) =
     and_then (forloop_statements f fl) (\<lambda>fl'. Inr (BForLoop fl'))"

definition test_or_keyword_statements ::
    "(statement \<Rightarrow> error + statement) \<Rightarrow> test_or_keyword \<Rightarrow> error + test_or_keyword" where
  "test_or_keyword_statements f n =
     and_then (f (tk_name n)) (\<lambda>nm.
     and_then (mapM (body_item_statements f) (tk_body n)) (\<lambda>b.
       Inr \<lparr>tk_name = nm, tk_body = b\<rparr>))"

fun section_item_statements ::
    "(statement \<Rightarrow> error + statement) \<Rightarrow> section_item \<Rightarrow> error + section_item" where
  "section_item_statements f (SStatement s) = and_then (f s) (\<lambda>s'. Inr (SStatement s'))"
| "section_item_statements f (STestOrKeyword n) =
     and_then (test_or_keyword_statements f n) (\<lambda>n'. Inr (STestOrKeyword n'))"

definition section_statements ::
    "(statement \<Rightarrow> error + statement) \<Rightarrow> section_node \<Rightarrow> error + section_node" where
  "section_statements f sec =
     and_then (f (sec_header sec)) (\<lambda>h.
     and_then (mapM (section_item_statements f) (sec_body sec)) (\<lambda>b.
       Inr (sec\<lparr>sec_header := h, sec_body := b\<rparr>)))"

definition model_statements :: "(statement \<Rightarrow> error + statement) \<Rightarrow> model \<Rightarrow> error + model" where
  "model_statements f m = mapM (section_statements f) m"

text \<open>
  \<open>SeparatorRemover().visit(model)\<close>. The Statement class derives \<open>statement.lines\<close> from
  \<open>statement.tokens\<close> outside this file; \<open>regroup\<close> stands for that grouping of the list
  the remover assigns.
\<close>

definition SeparatorRemover_statement ::
    "(token list \<Rightarrow> token list list) \<Rightarrow> statement \<Rightarrow> error + statement" where
  "SeparatorRemover_statement regroup s =
     Inr (s\<lparr>lines := regroup (SeparatorRemover_visit_Statement (st_type s) (tokens s))\<rparr>)"

definition SeparatorRemover_visit ::
    "(token list \<Rightarrow> token list list) \<Rightarrow> model \<Rightarrow> error + model" where
  "SeparatorRemover_visit regroup m = model_statements (SeparatorRemover_statement regroup) m"

section \<open>SettingCleaner\<close>

text \<open>The text assigned to the name token, from its old text.\<close>

definition cleaned :: "string \<Rightarrow> string" where
  "cleaned name =
     (if startswith (strip name) ''['' then
        ''['' @ title (lower (strip (strip_ends name))) @ '']''
      else title (lower name))"

text \<open>
  \<open>SettingCleaner.visit_Statement\<close>. \<open>Token.SETTING_TOKENS\<close> is defined by the lexer,
  outside this file, and is a parameter here.
\<close>

definition SettingCleaner_visit_Statement :: "token_type set \<Rightarrow> statement \<Rightarrow> error + statement" where
  "SettingCleaner_visit_Statement SETTING_TOKENS s =
     (if st_type s \<in> SETTING_TOKENS then
        and_then (first_value s) (\<lambda>name. set_first_value (cleaned name) s)
      else Inr s)"

definition SettingCleaner_visit :: "token_type set \<Rightarrow> model \<Rightarrow> error + model" where
  "SettingCleaner_visit SETTING_TOKENS m =
     model_statements (SettingCleaner_visit_Statement SETTING_TOKENS) m"

section \<open>ForLoopCleaner\<close>

definition ForLoopCleaner_visit_ForLoop :: "forloop \<Rightarrow> error + forloop" where
  "ForLoopCleaner_visit_ForLoop fl =
     and_then (set_first_value ''FOR'' (fl_header fl)) (\<lambda>h.
     and_then (set_first_value ''END'' (fl_end fl)) (\<lambda>e.
       Inr (fl\<lparr>fl_header := h, fl_end := e\<rparr>)))"

fun ForLoopCleaner_body_item :: "body_item \<Rightarrow> error + body_item" where
  "ForLoopCleaner_body_item (BStatement s) = Inr (BStatement s)"
| "ForLoopCleaner_body_item (BForLoop fl) =
     and_then (ForLoopCleaner_visit_ForLoop fl) (\<lambda>fl'. Inr (BForLoop fl'))"

fun ForLoopCleaner_section_item :: "section_item \<Rightarrow> error + section_item" where
  "ForLoopCleaner_section_item (SStatement s) = Inr (SStatement s)"
| "ForLoopCleaner_section_item (STestOrKeyword n) =
     and_then (mapM ForLoopCleaner_body_item (tk_body n)) (\<lambda>b. Inr (STestOrKeyword (n\<lparr>tk_body := b\<rparr>)))"

definition ForLoopCleaner_visit :: "model \<Rightarrow> error + model" where
  "ForLoopCleaner_visit m =
     mapM (\<lambda>sec. and_then (mapM ForLoopCleaner_section_item (sec_body sec))
                   (\<lambda>b. Inr (sec\<lparr>sec_body := b\<rparr>))) m"

section \<open>ColumnWidthCounter\<close>

record column_width_counter =
  cw_widths :: "int list"
  name_width :: int
  first_line_seen :: bool

definition ColumnWidthCounter_init :: "int list \<Rightarrow> column_width_counter" where
  "ColumnWidthCounter_init widths =
     \<lparr>cw_widths = widths, name_width = 0, first_line_seen = False\<rparr>"

text \<open>The loop over \<open>enumerate(line)\<close>, from position \<open>index\<close> on.\<close>

fun count_line :: "int list \<Rightarrow> nat \<Rightarrow> token list \<Rightarrow> int list" where
  "count_line widths index [] = widths"
| "count_line widths index (t # ts) =
     (let col = index + 1 in
      if col \<ge> length widths then
        count_line (widths @ [len (tk_value t)]) (Suc index) ts
      else if len (tk_value t) > widths ! col then
        count_line (widths[col := len (tk_value t)]) (Suc index) ts
      else count_line widths (Suc index) ts)"

definition count_lines :: "column_width_counter \<Rightarrow> token list list \<Rightarrow> column_width_counter" where
  "count_lines c ls =
     foldl (\<lambda>c line. c\<lparr>cw_widths := count_line (cw_widths c) 0 line, first_line_seen := True\<rparr>)
       c ls"

definition ColumnWidthCounter_visit_Statement ::
    "column_width_counter \<Rightarrow> statement \<Rightarrow> error + column_width_counter \<times> statement" where
  "ColumnWidthCounter_visit_Statement c s =
     (if st_type s = NAME then
        and_then (first_value s) (\<lambda>v.
          Inr (c\<lparr>name_width := len v, first_line_seen := False\<rparr>, s))
      else if st_type s = TESTCASE_HEADER then Inr (c, s)
      else Inr (count_lines c (lines s), s))"

section \<open>Visitors with fields, through the generic traversal\<close>

text \<open>
  \<open>generic_visit\<close> of a loop, of a body, of a test or keyword and of a section, for a visitor
  whose \<open>visit_Statement\<close> reads and writes the visitor's fields \<open>'s\<close>.
\<close>

definition generic_ForLoop ::
    "('s \<Rightarrow> statement \<Rightarrow> error + 's \<times> statement) \<Rightarrow> 's \<Rightarrow> forloop \<Rightarrow> error + 's \<times> forloop" where
  "generic_ForLoop f a fl =
     and_then (f a (fl_header fl)) (\<lambda>(a1, h).
     and_then (visit_all f a1 (fl_body fl)) (\<lambda>(a2, b).
     and_then (f a2 (fl_end fl)) (\<lambda>(a3, e).
       Inr (a3, \<lparr>fl_header = h, fl_body = b, fl_end = e\<rparr>))))"

definition generic_TestOrKeyword ::
    "('s \<Rightarrow> statement \<Rightarrow> error + 's \<times> statement) \<Rightarrow>
     ('s \<Rightarrow> body_item \<Rightarrow> error + 's \<times> body_item) \<Rightarrow>
     's \<Rightarrow> test_or_keyword \<Rightarrow> error + 's \<times> test_or_keyword" where
  "generic_TestOrKeyword f g a n =
     and_then (f a (tk_name n)) (\<lambda>(a1, nm).
     and_then (visit_all g a1 (tk_body n)) (\<lambda>(a2, b).
       Inr (a2, \<lparr>tk_name = nm, tk_body = b\<rparr>)))"

definition generic_Section ::
    "('s \<Rightarrow> statement \<Rightarrow> error + 's \<times> statement) \<Rightarrow>
     ('s \<Rightarrow> section_item \<Rightarrow> error + 's \<times> section_item) \<Rightarrow>
     's \<Rightarrow> section_node \<Rightarrow> error + 's \<times> section_node" where
  "generic_Section f g a sec =
     and_then (f a (sec_header sec)) (\<lambda>(a1, h).
     and_then (visit_all g a1 (sec_body sec)) (\<lambda>(a2, b).
       Inr (a2, sec\<lparr>sec_header := h, sec_body := b\<rparr>)))"

text \<open>\<open>ColumnWidthCounter(widths).visit(section)\<close>: every node is visited generically.\<close>

fun ColumnWidthCounter_body_item ::
    "column_width_counter \<Rightarrow> body_item \<Rightarrow> error + column_width_counter \<times> body_item" where
  "ColumnWidthCounter_body_item c (BStatement s) =
     and_then (ColumnWidthCounter_visit_Statement c s) (\<lambda>(c1, s'). Inr (c1, BStatement s'))"
| "ColumnWidthCounter_body_item c (BForLoop fl) =
     and_then (generic_ForLoop ColumnWidthCounter_visit_Statement c fl)
       (\<lambda>(c1, fl'). Inr (c1, BForLoop fl'))"

fun ColumnWidthCounter_section_item ::
    "column_width_counter \<Rightarrow> section_item \<Rightarrow> error + column_width_counter \<times> section_item" where
  "ColumnWidthCounter_section_item c (SStatement s) =
     and_then (ColumnWidthCounter_visit_Statement c s) (\<lambda>(c1, s'). Inr (c1, SStatement s'))"
| "ColumnWidthCounter_section_item c (STestOrKeyword n) =
     and_then (generic_TestOrKeyword ColumnWidthCounter_visit_Statement
                 ColumnWidthCounter_body_item c n)
       (\<lambda>(c1, n'). Inr (c1, STestOrKeyword n'))"

definition ColumnWidthCounter_visit ::
    "column_width_counter \<Rightarrow> section_node \<Rightarrow> error + column_width_counter \<times> section_node" where
  "ColumnWidthCounter_visit c sec =
     generic_Section ColumnWidthCounter_visit_Statement ColumnWidthCounter_section_item c sec"

section \<open>ColumnAligner\<close>

record column_aligner =
  ca_widths :: "int list"
  test_name_len :: int
  ca_indent :: int
  first_statment_seen :: bool

definition ColumnAligner_init :: "int list \<Rightarrow> column_aligner" where
  "ColumnAligner_init widths =
     \<lparr>ca_widths = widths, test_name_len = 0, ca_indent = 0, first_statment_seen = False\<rparr>"

text \<open>
  The widths used for one line: the copy \<open>self.widths[:]\<close>, with its first entry popped and
  added to the next one when the line is indented and starts with a keyword.
\<close>

definition line_widths :: "column_aligner \<Rightarrow> token list \<Rightarrow> error + int list" where
  "line_widths a line =
     (if ca_indent a > 0 then
        (case line of
           [] \<Rightarrow> Inl IndexError
         | t # _ \<Rightarrow>
             if tk_type t = KEYWORD then
               (case ca_widths a of
                  [] \<Rightarrow> Inl IndexError
                | first_width # ws \<Rightarrow>
                    (case ws of
                       [] \<Rightarrow> Inl IndexError
                     | w # ws' \<Rightarrow> Inr ((w + first_width) # ws')))
             else Inr (ca_widths a))
      else Inr (ca_widths a))"

text \<open>
  The loop over \<open>zip(line, widths)\<close>. It returns the line with the padded tokens and
  the flag \<open>_first_statment_seen\<close>; tokens beyond the widths are not reached.
\<close>

fun align_tokens :: "int \<Rightarrow> bool \<Rightarrow> int \<Rightarrow> int \<Rightarrow> token list \<Rightarrow> int list \<Rightarrow> token list \<times> bool" where
  "align_tokens name_len seen line_pos exp_pos [] widths = ([], seen)"
| "align_tokens name_len seen line_pos exp_pos (t # ts) [] = (t # ts, seen)"
| "align_tokens name_len seen line_pos exp_pos (t # ts) (width # widths) =
     (let exp_pos1 = exp_pos + width;
          fires = (line_pos = 0 \<and> \<not> seen \<and> name_len < 18);
          exp_pos2 = (if fires then exp_pos1 - name_len else exp_pos1);
          seen2 = (if fires then True else seen);
          t' = t\<lparr>tk_value := spaces (exp_pos2 - line_pos) @ tk_value t\<rparr>;
          line_pos2 = line_pos + len (tk_value t');
          (ts', seen3) = align_tokens name_len seen2 line_pos2 exp_pos2 ts widths
      in (t' # ts', seen3))"

definition ColumnAligner_line ::
    "column_aligner \<Rightarrow> token list \<Rightarrow> error + column_aligner \<times> token list" where
  "ColumnAligner_line a line =
     and_then (line_widths a line) (\<lambda>widths.
       let (line', seen) =
             align_tokens (test_name_len a) (first_statment_seen a) 0 0 line widths
       in Inr (a\<lparr>first_statment_seen := seen\<rparr>, line'))"

definition ColumnAligner_visit_Statement ::
    "column_aligner \<Rightarrow> statement \<Rightarrow> error + column_aligner \<times> statement" where
  "ColumnAligner_visit_Statement a s =
     (if st_type s = TESTCASE_HEADER then Inr (a, s)
      else if st_type s = NAME then
        and_then (first_value s) (\<lambda>v. Inr (a\<lparr>test_name_len := len v\<rparr>, s))
      else
        and_then (visit_all ColumnAligner_line a (lines s)) (\<lambda>(a', ls).
          Inr (a', s\<lparr>lines := ls\<rparr>)))"

definition ColumnAligner_visit_ForLoop ::
    "column_aligner \<Rightarrow> forloop \<Rightarrow> error + column_aligner \<times> forloop" where
  "ColumnAligner_visit_ForLoop a fl =
     and_then (generic_ForLoop ColumnAligner_visit_Statement (a\<lparr>ca_indent := ca_indent a + 1\<rparr>) fl)
       (\<lambda>(a', fl'). Inr (a'\<lparr>ca_indent := ca_indent a' - 1\<rparr>, fl'))"

fun ColumnAligner_body_item ::
    "column_aligner \<Rightarrow> body_item \<Rightarrow> error + column_aligner \<times> body_item" where
  "ColumnAligner_body_item a (BStatement s) =
     and_then (ColumnAligner_visit_Statement a s) (\<lambda>(a', s'). Inr (a', BStatement s'))"
| "ColumnAligner_body_item a (BForLoop fl) =
     and_then (ColumnAligner_visit_ForLoop a fl) (\<lambda>(a', fl'). Inr (a', BForLoop fl'))"

definition ColumnAligner_visit_TestOrKeyword ::
    "column_aligner \<Rightarrow> test_or_keyword \<Rightarrow> error + column_aligner \<times> test_or_keyword" where
  "ColumnAligner_visit_TestOrKeyword a n =
     generic_TestOrKeyword ColumnAligner_visit_Statement ColumnAligner_body_item
       (a\<lparr>first_statment_seen := False\<rparr>) n"

fun ColumnAligner_section_item ::
    "column_aligner \<Rightarrow> section_item \<Rightarrow> error + column_aligner \<times> section_item" where
  "ColumnAligner_section_item a (SStatement s) =
     and_then (ColumnAligner_visit_Statement a s) (\<lambda>(a', s'). Inr (a', SStatement s'))"
| "ColumnAligner_section_item a (STestOrKeyword n) =
     and_then (ColumnAligner_visit_TestOrKeyword a n) (\<lambda>(a', n'). Inr (a', STestOrKeyword n'))"

definition ColumnAligner_visit ::
    "column_aligner \<Rightarrow> section_node \<Rightarrow> error + column_aligner \<times> section_node" where
  "ColumnAligner_visit a sec =
     generic_Section ColumnAligner_visit_Statement ColumnAligner_section_item a sec"

section \<open>Aligner\<close>

definition setting_and_variable_name_width :: nat where
  "setting_and_variable_name_width = 14"

text \<open>\<open>Aligner.visit_Statement\<close>: \<open>line[0]\<close> of a line without tokens raises.\<close>

definition Aligner_line :: "token list \<Rightarrow> error + token list" where
  "Aligner_line line =
     (case line of
        [] \<Rightarrow> Inl IndexError
      | t # ts \<Rightarrow> Inr (t\<lparr>tk_value := ljust (tk_value t) setting_and_variable_name_width\<rparr> # ts))"

definition Aligner_visit_Statement :: "statement \<Rightarrow> error + statement" where
  "Aligner_visit_Statement s =
     and_then (mapM Aligner_line (lines s)) (\<lambda>ls. Inr (s\<lparr>lines := ls\<rparr>))"

text \<open>
  \<open>Aligner.visit_Section\<close>. \<open>len(section.header)\<close> counts the header's tokens and the
  comprehension over \<open>section.header\<close> runs over them.
\<close>

definition header_widths :: "section_node \<Rightarrow> int list" where
  "header_widths sec = map (\<lambda>t. len (tk_value t)) (tokens (sec_header sec))"

definition Aligner_visit_Section :: "section_node \<Rightarrow> error + section_node" where
  "Aligner_visit_Section sec =
     (if sec_type sec = SETTING_HEADER \<or> sec_type sec = VARIABLE_HEADER then
        section_statements Aligner_visit_Statement sec
      else if sec_type sec = TESTCASE_HEADER then
        (if length (tokens (sec_header sec)) > 1 then
           and_then (ColumnWidthCounter_visit (ColumnWidthCounter_init (header_widths sec)) sec)
             (\<lambda>(counter, sec1).
           and_then (ColumnAligner_visit (ColumnAligner_init (butlast (cw_widths counter))) sec1)
             (\<lambda>(aligner, sec2). Inr sec2))
         else Inr sec)
      else Inr sec)"

definition Aligner_visit :: "model \<Rightarrow> error + model" where
  "Aligner_visit m = mapM Aligner_visit_Section m"

section \<open>Writer\<close>

record configuration =
  pipe_separated :: bool
  txt_separating_spaces :: int

text \<open>
  \<open>_test_case_section_headers\<close> is None at first, the list of header lengths inside a
  test case section with more than one header column, and False after a section.
\<close>

datatype section_headers = HNone | HFalse | HLengths "int list"

fun truthy :: "section_headers \<Rightarrow> bool" where
  "truthy HNone = False"
| "truthy HFalse = False"
| "truthy (HLengths ls) = (ls \<noteq> [])"

text \<open>The output stream is the text written to it so far.\<close>

record writer =
  w_output :: string
  w_indent :: int
  pipes :: bool
  separator :: string
  indent_marker :: string
  section_seen :: bool
  test_or_kw_seen :: bool
  test_case_section_headers :: section_headers

definition Writer_init :: "configuration \<Rightarrow> writer" where
  "Writer_init config =
     \<lparr>w_output = [],
      w_indent = 0,
      pipes = pipe_separated config,
      separator = (if \<not> pipe_separated config then spaces (txt_separating_spaces config)
                   else '' | ''),
      indent_marker = (if \<not> pipe_separated config then spaces (txt_separating_spaces config)
                       else ''   | ''),
      section_seen = False,
      test_or_kw_seen = False,
      test_case_section_headers = HNone\<rparr>"

definition output_write :: "writer \<Rightarrow> string \<Rightarrow> writer" where
  "output_write w s = w\<lparr>w_output := w_output w @ s\<rparr>"

text \<open>The row written for one line.\<close>

definition row :: "writer \<Rightarrow> token list \<Rightarrow> string" where
  "row w line =
     (let indent = concat (replicate (nat (w_indent w)) (indent_marker w));
          values = map tk_value line;
          r = indent @ join (separator w) values
      in if pipes w then ''| '' @ r @ '' |'' else rstrip r)"

definition write_statement :: "writer \<Rightarrow> statement \<Rightarrow> bool \<Rightarrow> writer" where
  "write_statement w statement write_newline =
     foldl (\<lambda>w line.
              let w1 = output_write w (row w line)
              in if write_newline then output_write w1 newline else w1)
       w (lines statement)"

definition Writer_visit_ForLoop :: "writer \<Rightarrow> forloop \<Rightarrow> writer" where
  "Writer_visit_ForLoop w node =
     (let w1 = write_statement w (fl_header node) True;
          w2 = w1\<lparr>w_indent := w_indent w1 + 1\<rparr>;
          w3 = foldl (\<lambda>w s. write_statement w s True) w2 (fl_body node);
          w4 = w3\<lparr>w_indent := w_indent w3 - 1\<rparr>
      in write_statement w4 (fl_end node) True)"

fun Writer_body_item :: "writer \<Rightarrow> body_item \<Rightarrow> writer" where
  "Writer_body_item w (BStatement s) = write_statement w s True"
| "Writer_body_item w (BForLoop fl) = Writer_visit_ForLoop w fl"

text \<open>
  The argument \<open>write_newline\<close> of the name line. The length of the name is read only when
  the headers are set.
\<close>

definition name_write_newline :: "writer \<Rightarrow> test_or_keyword \<Rightarrow> error + bool" where
  "name_write_newline w node =
     (if \<not> truthy (test_case_section_headers w) then Inr True
      else and_then (first_value (tk_name node)) (\<lambda>v. Inr (len v \<ge> 18)))"

definition Writer_visit_TestOrKeyword :: "writer \<Rightarrow> test_or_keyword \<Rightarrow> error + writer" where
  "Writer_visit_TestOrKeyword w node =
     (let w1 = (if test_or_kw_seen w then output_write w newline else w) in
      and_then (name_write_newline w1 node) (\<lambda>write_newline.
        let w2 = write_statement w1 (tk_name node) write_newline;
            w3 = w2\<lparr>w_indent := w_indent w2 + 1\<rparr>;
            w4 = foldl Writer_body_item w3 (tk_body node);
            w5 = w4\<lparr>w_indent := w_indent w4 - 1\<rparr>
        in Inr (w5\<lparr>test_or_kw_seen := True\<rparr>)))"

fun Writer_section_item :: "writer \<Rightarrow> section_item \<Rightarrow> error + writer" where
  "Writer_section_item w (SStatement s) = Inr (write_statement w s True)"
| "Writer_section_item w (STestOrKeyword n) = Writer_visit_TestOrKeyword w n"

fun Writer_section_items :: "writer \<Rightarrow> section_item list \<Rightarrow> error + writer" where
  "Writer_section_items w [] = Inr w"
| "Writer_section_items w (x # xs) =
     (case Writer_section_item w x of
        Inl e \<Rightarrow> Inl e
      | Inr w1 \<Rightarrow> Writer_section_items w1 xs)"

text \<open>\<open>Writer.visit_Section\<close> up to its call of \<open>generic_visit\<close>.\<close>

definition Writer_enter_Section :: "writer \<Rightarrow> section_node \<Rightarrow> writer" where
  "Writer_enter_Section w sec =
     (let w1 = (if section_seen w then output_write w newline else w)
      in if sec_type sec = TESTCASE_HEADER \<and> length (tokens (sec_header sec)) > 1
         then w1\<lparr>test_case_section_headers := HLengths (header_widths sec)\<rparr>
         else w1)"

definition Writer_visit_Section :: "writer \<Rightarrow> section_node \<Rightarrow> error + writer" where
  "Writer_visit_Section w sec =
     (let w1 = Writer_enter_Section w sec;
          w2 = write_statement w1 (sec_header sec) True
      in and_then (Writer_section_items w2 (sec_body sec)) (\<lambda>w3.
           Inr (w3\<lparr>section_seen := True,
                   test_or_kw_seen := False,
                   test_case_section_headers := HFalse\<rparr>)))"

fun Writer_visit :: "writer \<Rightarrow> model \<Rightarrow> error + writer" where
  "Writer_visit w [] = Inr w"
| "Writer_visit w (sec # secs) =
     (case Writer_visit_Section w sec of
        Inl e \<Rightarrow> Inl e
      | Inr w1 \<Rightarrow> Writer_visit w1 secs)"

section \<open>The file writer\<close>

text \<open>\<open>_DataFileWriter.write\<close>: the five visitors in order; the result is the text written.\<close>

definition DataFileWriter_write ::
    "token_type set \<Rightarrow> (token list \<Rightarrow> token list list) \<Rightarrow> configuration \<Rightarrow> model \<Rightarrow> error + string" where
  "DataFileWriter_write SETTING_TOKENS regroup config m =
     and_then (SeparatorRemover_visit regroup m) (\<lambda>m1.
     and_then (SettingCleaner_visit SETTING_TOKENS m1) (\<lambda>m2.
     and_then (ForLoopCleaner_visit m2) (\<lambda>m3.
     and_then (Aligner_visit m3) (\<lambda>m4.
     and_then (Writer_visit (Writer_init config) m4) (\<lambda>w. Inr (w_output w))))))"

section \<open>Positions on a line\<close>

text \<open>
  The values of \<open>line_pos\<close> and \<open>exp_pos\<close> when the loop reaches the token at position
  \<open>i\<close>, read off the padded line and the widths: the text already on the line, and the
  widths consumed so far less what the name length took off. \<open>subtracted\<close> is what a
  line takes off when it starts in the state \<open>a\<close>.
\<close>

definition line_pos_at :: "token list \<Rightarrow> nat \<Rightarrow> int" where
  "line_pos_at line i = sum_list (map (\<lambda>t. len (tk_value t)) (take i line))"

definition exp_pos_at :: "int list \<Rightarrow> int \<Rightarrow> nat \<Rightarrow> int" where
  "exp_pos_at widths subtracted i = sum_list (take (Suc i) widths) - subtracted"

definition subtracted :: "column_aligner \<Rightarrow> int" where
  "subtracted a =
     (if \<not> first_statment_seen a \<and> test_name_len a < 18 then test_name_len a else 0)"

section \<open>Auxiliary notions\<close>

text \<open>
  The grouping used where a whole document is written below: what the SeparatorRemover
  leaves of a statement stands on one line, and a statement without tokens has no line.
\<close>

definition single_line :: "token list \<Rightarrow> token list list" where
  "single_line ts = (if ts = [] then [] else [ts])"



section \<open>Properties of the SeparatorRemover\<close>

lemma append_value_empty: "append_value t [] = t"
  by (simp add: append_value_def)

lemma append_value_twice: "append_value (append_value t a) b = append_value t (a @ b)"
  by (simp add: append_value_def)

lemma separator_run_Cons:
  "separator_run (t # ts) =
     (if tk_type t = SEPARATOR then drop_last4 (tk_value t) @ separator_run ts else [])"
  by (simp add: separator_run_def)

lemma add_whitespace_loop_None:
  "add_whitespace_loop seen None ts = seen @ with_header_whitespace ts"
  and add_whitespace_loop_Some:
  "p < length seen \<Longrightarrow> tk_type (seen ! p) = TESTCASE_HEADER \<Longrightarrow>
   add_whitespace_loop seen (Some p) ts =
     seen[p := append_value (seen ! p) (separator_run ts)] @ with_header_whitespace ts"
proof (induction ts arbitrary: seen p)
  case Nil
  { case 1 show ?case by simp
  next
    case 2 then show ?case by (simp add: separator_run_def append_value_empty) }
next
  case (Cons t ts)
  { case 1
    show ?case
    proof (cases "tk_type t = TESTCASE_HEADER")
      case True
      then show ?thesis
        using Cons.IH(2) [of "length seen" "seen @ [t]"] by simp
    next
      case False
      then show ?thesis using Cons.IH(1) [of "seen @ [t]"] by simp
    qed
  next
    case 2
    show ?case
    proof (cases "tk_type t = SEPARATOR")
      case True
      let ?seen' = "seen[p := append_value (seen ! p) (drop_last4 (tk_value t))] @ [t]"
      have "p < length ?seen'" using 2 by simp
      moreover have "tk_type (?seen' ! p) = TESTCASE_HEADER"
        using 2 by (simp add: nth_append append_value_def)
      ultimately have "add_whitespace_loop ?seen' (Some p) ts =
          ?seen'[p := append_value (?seen' ! p) (separator_run ts)] @ with_header_whitespace ts"
        by (rule Cons.IH(2))
      then show ?thesis
        using True 2 by (simp add: separator_run_Cons nth_append list_update_append
            append_value_twice)
    next
      case False
      show ?thesis
      proof (cases "tk_type t = TESTCASE_HEADER")
        case True
        then show ?thesis
          using False Cons.IH(2) [of "length seen" "seen @ [t]"] 2
          by (simp add: separator_run_Cons append_value_empty)
      next
        case F2: False
        then show ?thesis
          using False Cons.IH(1) [of "seen @ [t]"] 2
          by (simp add: separator_run_Cons append_value_empty)
      qed
    qed }
qed

lemma add_whitespace_to_header_values_eq:
  "add_whitespace_to_header_values ts = with_header_whitespace ts"
  by (simp add: add_whitespace_to_header_values_def add_whitespace_loop_None)

lemma separator_run_apart:
  "separators_apart (u # ts) \<Longrightarrow> tk_type u = SEPARATOR \<Longrightarrow> separator_run ts = []"
  by (cases ts) (simp_all add: separator_run_def)

lemma with_header_whitespace_apart:
  "separators_apart ts \<Longrightarrow> with_header_whitespace ts = immediate_header_whitespace ts"
proof (induction ts rule: immediate_header_whitespace.induct)
  case 1
  show ?case by simp
next
  case (2 t)
  show ?case by (simp add: separator_run_def append_value_empty)
next
  case (3 t u ts)
  have rest: "with_header_whitespace (u # ts) = immediate_header_whitespace (u # ts)"
    using 3 by simp
  have run: "separator_run (u # ts) =
      (if tk_type u = SEPARATOR then drop_last4 (tk_value u) else [])"
    using separator_run_apart [of u ts] 3(2) by (simp add: separator_run_Cons)
  show ?case
    using rest run
    by (simp only: with_header_whitespace.simps immediate_header_whitespace.simps)
       (simp add: append_value_empty)
qed

text \<open>
  C9, as amended. The SeparatorRemover removes every separator, end-of-line and old
  for-indent token of a statement. In a statement of type \<open>TESTCASE_HEADER\<close>, before the
  removal, every header title token has appended to its text the texts, each without its
  last four characters, of all the separators of the unbroken run that follows it (not of
  the first one only); a separator that is not in such a run contributes nothing, and
  statements of other types only lose their structural tokens. Where no separator follows
  another separator the run is the one separator that immediately follows the title.
\<close>

theorem separator_remover_header_runs:
  "SeparatorRemover_visit_Statement ty ts =
     filter (\<lambda>t. \<not> structural (tk_type t))
       (if ty = TESTCASE_HEADER then with_header_whitespace ts else ts)
   \<and> (separators_apart ts \<longrightarrow>
        SeparatorRemover_visit_Statement TESTCASE_HEADER ts =
          filter (\<lambda>t. \<not> structural (tk_type t)) (immediate_header_whitespace ts))"
  by (simp add: SeparatorRemover_visit_Statement_def add_whitespace_to_header_values_eq
      with_header_whitespace_apart)

theorem separator_remover_header_runs_witness:
  "SeparatorRemover_visit_Statement TESTCASE_HEADER
     [\<lparr>tk_type = TESTCASE_HEADER, tk_value = ''Name''\<rparr>,
      \<lparr>tk_type = SEPARATOR, tk_value = ''      ''\<rparr>,
      \<lparr>tk_type = TESTCASE_HEADER, tk_value = ''Arg''\<rparr>,
      \<lparr>tk_type = EOL, tk_value = ''x''\<rparr>]
   = [\<lparr>tk_type = TESTCASE_HEADER, tk_value = ''Name  ''\<rparr>,
      \<lparr>tk_type = TESTCASE_HEADER, tk_value = ''Arg''\<rparr>]
   \<and> separators_apart
     [\<lparr>tk_type = TESTCASE_HEADER, tk_value = ''Name''\<rparr>,
      \<lparr>tk_type = SEPARATOR, tk_value = ''      ''\<rparr>,
      \<lparr>tk_type = TESTCASE_HEADER, tk_value = ''Arg''\<rparr>,
      \<lparr>tk_type = EOL, tk_value = ''x''\<rparr>]"
  using separator_remover_header_runs [of TESTCASE_HEADER
     "[\<lparr>tk_type = TESTCASE_HEADER, tk_value = ''Name''\<rparr>,
      \<lparr>tk_type = SEPARATOR, tk_value = ''      ''\<rparr>,
      \<lparr>tk_type = TESTCASE_HEADER, tk_value = ''Arg''\<rparr>,
      \<lparr>tk_type = EOL, tk_value = ''x''\<rparr>]"]
  by (simp add: separator_run_def drop_last4_def append_value_def structural_def)

text \<open>
  C9 as stated fails: of two separators after a header title the second does not
  immediately follow the title, and still its text without the last four characters is
  appended. The claim gives the title \<open>A\<close> two spaces here, the code three.
\<close>

theorem separator_remover_second_separator_counterexample:
  "SeparatorRemover_visit_Statement TESTCASE_HEADER
     [\<lparr>tk_type = TESTCASE_HEADER, tk_value = ''A''\<rparr>,
      \<lparr>tk_type = SEPARATOR, tk_value = ''      ''\<rparr>,
      \<lparr>tk_type = SEPARATOR, tk_value = ''     ''\<rparr>]
   = [\<lparr>tk_type = TESTCASE_HEADER, tk_value = ''A   ''\<rparr>]
   \<and> SeparatorRemover_visit_Statement TESTCASE_HEADER
     [\<lparr>tk_type = TESTCASE_HEADER, tk_value = ''A''\<rparr>,
      \<lparr>tk_type = SEPARATOR, tk_value = ''      ''\<rparr>,
      \<lparr>tk_type = SEPARATOR, tk_value = ''     ''\<rparr>]
   \<noteq> [append_value \<lparr>tk_type = TESTCASE_HEADER, tk_value = ''A''\<rparr> (drop_last4 ''      '')]"
  by (simp add: SeparatorRemover_visit_Statement_def add_whitespace_to_header_values_def
      drop_last4_def append_value_def structural_def)

section \<open>Properties of the Writer\<close>

lemma row_output_irrelevant: "row (w\<lparr>w_output := out\<rparr>) line = row w line"
  by (simp add: row_def)

lemma foldl_write_rows:
  "foldl (\<lambda>a b. a\<lparr>w_output := w_output a @ row a b @ e\<rparr>) v ls =
     v\<lparr>w_output := w_output v @ concat (map (\<lambda>line. row v line @ e) ls)\<rparr>"
  by (induction ls arbitrary: v) (simp_all add: row_output_irrelevant)

lemma foldl_write_rows_plain:
  "foldl (\<lambda>a b. a\<lparr>w_output := w_output a @ row a b\<rparr>) v ls =
     v\<lparr>w_output := w_output v @ concat (map (row v) ls)\<rparr>"
  using foldl_write_rows [of "[]" v ls] by simp

lemma write_statement_eq:
  "write_statement w s nl =
     w\<lparr>w_output := w_output w
          @ concat (map (\<lambda>line. row w line @ (if nl then newline else [])) (lines s))\<rparr>"
  by (cases nl)
    (simp_all add: write_statement_def output_write_def Let_def foldl_write_rows
      foldl_write_rows_plain)

lemma row_space_example:
  "row (Writer_init \<lparr>pipe_separated = False, txt_separating_spaces = 4\<rparr>)
        [\<lparr>tk_type = KEYWORD, tk_value = ''Log''\<rparr>, \<lparr>tk_type = ARGUMENT, tk_value = ''hello''\<rparr>]
      = ''Log    hello''"
  by code_simp

lemma row_pipe_example:
  "row (Writer_init \<lparr>pipe_separated = True, txt_separating_spaces = n\<rparr>)
        [\<lparr>tk_type = KEYWORD, tk_value = ''Log''\<rparr>, \<lparr>tk_type = ARGUMENT, tk_value = ''hello''\<rparr>]
      = ''| Log | hello |''"
  by (simp add: row_def Writer_init_def)

text \<open>
  C7. A statement is written line by line: the row of a line, then a newline unless it is
  suppressed. The row is the indentation followed by the token texts joined with the
  separator, which is \<open>txt_separating_spaces\<close> spaces in space mode and \<open>'' | ''\<close> in pipe
  mode; in pipe mode it is wrapped in \<open>''| ''\<close> and \<open>'' |''\<close>, in space mode it is
  right-trimmed. A fresh writer has no indentation, and there the tokens \<open>Log\<close>, \<open>hello\<close>
  give \<open>| Log | hello |\<close> in pipe mode and \<open>Log    hello\<close> with four separating spaces.
\<close>

theorem statement_rendering:
  "w_output (write_statement w s nl) =
     w_output w @ concat (map (\<lambda>line. row w line @ (if nl then newline else [])) (lines s))
   \<and> row w line =
     (if pipes w
      then ''| '' @ concat (replicate (nat (w_indent w)) (indent_marker w))
             @ join (separator w) (map tk_value line) @ '' |''
      else rstrip (concat (replicate (nat (w_indent w)) (indent_marker w))
             @ join (separator w) (map tk_value line)))
   \<and> separator (Writer_init config) =
     (if pipe_separated config then '' | ''
      else replicate (nat (txt_separating_spaces config)) CHR '' '')
   \<and> row (Writer_init config) line =
     (if pipe_separated config
      then ''| '' @ join '' | '' (map tk_value line) @ '' |''
      else rstrip (join (replicate (nat (txt_separating_spaces config)) CHR '' '')
                     (map tk_value line)))
   \<and> row (Writer_init \<lparr>pipe_separated = True, txt_separating_spaces = n\<rparr>)
        [\<lparr>tk_type = KEYWORD, tk_value = ''Log''\<rparr>, \<lparr>tk_type = ARGUMENT, tk_value = ''hello''\<rparr>]
      = ''| Log | hello |''
   \<and> row (Writer_init \<lparr>pipe_separated = False, txt_separating_spaces = 4\<rparr>)
        [\<lparr>tk_type = KEYWORD, tk_value = ''Log''\<rparr>, \<lparr>tk_type = ARGUMENT, tk_value = ''hello''\<rparr>]
      = ''Log    hello''"
proof -
  have "w_output (write_statement w s nl) =
     w_output w @ concat (map (\<lambda>line. row w line @ (if nl then newline else [])) (lines s))"
    by (simp add: write_statement_eq)
  moreover have "row w line =
     (if pipes w
      then ''| '' @ concat (replicate (nat (w_indent w)) (indent_marker w))
             @ join (separator w) (map tk_value line) @ '' |''
      else rstrip (concat (replicate (nat (w_indent w)) (indent_marker w))
             @ join (separator w) (map tk_value line)))"
    by (simp add: row_def)
  moreover have "separator (Writer_init config) =
     (if pipe_separated config then '' | ''
      else replicate (nat (txt_separating_spaces config)) CHR '' '')"
    by (simp add: Writer_init_def spaces_def space_def)
  moreover have "row (Writer_init config) line =
     (if pipe_separated config
      then ''| '' @ join '' | '' (map tk_value line) @ '' |''
      else rstrip (join (replicate (nat (txt_separating_spaces config)) CHR '' '')
                     (map tk_value line)))"
    by (simp add: row_def Writer_init_def spaces_def space_def)
  ultimately show ?thesis
    using row_pipe_example [of n] row_space_example
    by - (intro conjI; assumption)
qed

theorem statement_rendering_witness:
  "w_output (write_statement (Writer_init \<lparr>pipe_separated = True, txt_separating_spaces = 4\<rparr>)
     \<lparr>st_type = KEYWORD,
      lines = [[\<lparr>tk_type = KEYWORD, tk_value = ''Log''\<rparr>,
                \<lparr>tk_type = ARGUMENT, tk_value = ''hello''\<rparr>]]\<rparr> True)
   = ''| Log | hello |'' @ newline"
  using statement_rendering [of "Writer_init \<lparr>pipe_separated = True, txt_separating_spaces = 4\<rparr>"
     "\<lparr>st_type = KEYWORD,
      lines = [[\<lparr>tk_type = KEYWORD, tk_value = ''Log''\<rparr>,
                \<lparr>tk_type = ARGUMENT, tk_value = ''hello''\<rparr>]]\<rparr>" True
     "[\<lparr>tk_type = KEYWORD, tk_value = ''Log''\<rparr>, \<lparr>tk_type = ARGUMENT, tk_value = ''hello''\<rparr>]"
     "\<lparr>pipe_separated = True, txt_separating_spaces = 4\<rparr>" 4]
  by (simp add: Writer_init_def)

section \<open>Properties of the ColumnAligner\<close>

lemma align_tokens_step:
  "align_tokens nl seen lp ep (t # ts) (w # ws) =
     (let fires = (lp = 0 \<and> \<not> seen \<and> nl < 18);
          ep2 = ep + w - (if fires then nl else 0);
          t' = t\<lparr>tk_value := spaces (ep2 - lp) @ tk_value t\<rparr>;
          r = align_tokens nl (seen \<or> fires) (lp + len (tk_value t')) ep2 ts ws
      in (t' # fst r, snd r))"
  by (auto simp add: Let_def split: prod.splits)

lemma align_tokens_Nil_widths: "align_tokens nl seen lp ep ts [] = (ts, seen)"
  by (cases ts) simp_all

lemma align_tokens_length:
  "length (fst (align_tokens nl seen lp ep ts ws)) = length ts"
proof (induction ts arbitrary: seen lp ep ws)
  case Nil
  show ?case by simp
next
  case (Cons t ts)
  show ?case
    by (cases ws) (simp_all only: align_tokens_Nil_widths align_tokens_step Let_def fst_conv
        length_Cons Cons.IH)
qed

lemma align_tokens_types:
  "map tk_type (fst (align_tokens nl seen lp ep ts ws)) = map tk_type ts"
proof (induction ts arbitrary: seen lp ep ws)
  case Nil
  show ?case by simp
next
  case (Cons t ts)
  show ?case
  proof (cases ws)
    case Nil
    then show ?thesis by (simp only: align_tokens_Nil_widths fst_conv)
  next
    case (Cons w ws')
    show ?thesis
      unfolding Cons align_tokens_step Let_def fst_conv list.map Cons.IH by simp
  qed
qed

lemma align_tokens_unpaired:
  "drop (length ws) (fst (align_tokens nl seen lp ep ts ws)) = drop (length ws) ts"
proof (induction ts arbitrary: seen lp ep ws)
  case Nil
  show ?case by simp
next
  case (Cons t ts)
  show ?case
  proof (cases ws)
    case Nil
    then show ?thesis by (simp only: align_tokens_Nil_widths fst_conv)
  next
    case (Cons w ws')
    show ?thesis
      unfolding Cons align_tokens_step Let_def fst_conv length_Cons drop_Suc_Cons Cons.IH
      by simp
  qed
qed

lemma len_nonneg: "0 \<le> len s"
  by (simp add: len_def)


lemma align_tokens_values:
  "0 \<le> lp \<Longrightarrow> i < length ts \<Longrightarrow> i < length ws \<Longrightarrow>
   tk_value (fst (align_tokens nl seen lp ep ts ws) ! i) =
     spaces ((ep + exp_pos_at ws (if lp = 0 \<and> \<not> seen \<and> nl < 18 then nl else 0) i)
             - (lp + line_pos_at (fst (align_tokens nl seen lp ep ts ws)) i))
     @ tk_value (ts ! i)"
proof (induction ts arbitrary: i seen lp ep ws)
  case Nil
  then show ?case by simp
next
  case (Cons t ts)
  obtain w ws' where ws: "ws = w # ws'" using Cons.prems(3) by (cases ws) auto
  define fires where "fires = (lp = 0 \<and> \<not> seen \<and> nl < 18)"
  define corr where "corr = (if fires then nl else 0)"
  define ep2 where "ep2 = ep + w - corr"
  define t' where "t' = t\<lparr>tk_value := spaces (ep2 - lp) @ tk_value t\<rparr>"
  define lp2 where "lp2 = lp + len (tk_value t')"
  define rest where "rest = fst (align_tokens nl (seen \<or> fires) lp2 ep2 ts ws')"
  have res: "fst (align_tokens nl seen lp ep (t # ts) (w # ws')) = t' # rest"
    unfolding align_tokens_step Let_def rest_def lp2_def t'_def ep2_def corr_def fires_def
    by simp
  have mono: "lp \<le> lp2" unfolding lp2_def using len_nonneg [of "tk_value t'"] by linarith
  have lp2: "0 \<le> lp2" using Cons.prems(1) mono by linarith
  have val0: "tk_value t' = spaces (ep2 - lp) @ tk_value t" by (simp add: t'_def)
  show ?case
  proof (cases i)
    case 0
    have eq: "ep + exp_pos_at (w # ws') corr 0 - (lp + line_pos_at (t' # rest) 0) = ep2 - lp"
      by (simp add: exp_pos_at_def line_pos_at_def ep2_def)
    show ?thesis
      unfolding 0 ws res fires_def [symmetric] corr_def [symmetric] eq
      by (simp only: nth_Cons_0 val0)
  next
    case (Suc j)
    have j: "j < length ts" "j < length ws'" using Cons.prems Suc ws by simp_all
    have nofire: "(if lp2 = 0 \<and> \<not> (seen \<or> fires) \<and> nl < 18 then nl else 0) = 0"
      using mono Cons.prems(1) by (auto simp: fires_def)
    have ih: "tk_value (rest ! j) =
        spaces ((ep2 + exp_pos_at ws' 0 j) - (lp2 + line_pos_at rest j)) @ tk_value (ts ! j)"
      using Cons.IH [OF lp2 j, of "seen \<or> fires" ep2] unfolding nofire rest_def .
    have eq: "(ep + exp_pos_at (w # ws') corr (Suc j)) - (lp + line_pos_at (t' # rest) (Suc j)) =
        (ep2 + exp_pos_at ws' 0 j) - (lp2 + line_pos_at rest j)"
      by (simp add: exp_pos_at_def line_pos_at_def ep2_def lp2_def)
    show ?thesis
      unfolding Suc ws res fires_def [symmetric] corr_def [symmetric] eq
      by (simp only: nth_Cons_Suc ih)
  qed
qed

lemma ColumnAligner_line_result:
  assumes "ColumnAligner_line a line = Inr (a', line')" and "line_widths a line = Inr widths"
  shows "line' = fst (align_tokens (test_name_len a) (first_statment_seen a) 0 0 line widths)"
    and "a' = a\<lparr>first_statment_seen :=
                 snd (align_tokens (test_name_len a) (first_statment_seen a) 0 0 line widths)\<rparr>"
  using assms
  by (auto simp: ColumnAligner_line_def and_then_def Let_def split: prod.splits)


lemma ColumnAligner_line_value:
  assumes "ColumnAligner_line a line = Inr (a', line')" and "line_widths a line = Inr widths"
    and "i < length line" and "i < length widths"
  shows "tk_value (line' ! i) =
     spaces (exp_pos_at widths (subtracted a) i - line_pos_at line' i) @ tk_value (line ! i)"
  using ColumnAligner_line_result(1) [OF assms(1,2)]
    align_tokens_values [of 0 i line widths "test_name_len a" "first_statment_seen a" 0]
    assms(3,4)
  by (simp add: subtracted_def)

lemma spaces_max: "spaces (max n 0) = spaces n"
  by (simp add: spaces_def max_def)

lemma ColumnAligner_line_unpaired:
  assumes "ColumnAligner_line a line = Inr (a', line')" and "line_widths a line = Inr widths"
  shows "length line' = length line
    \<and> drop (length widths) line' = drop (length widths) line
    \<and> (\<forall>i. length widths \<le> i \<and> i < length line \<longrightarrow> line' ! i = line ! i)"
proof -
  have eq: "line' = fst (align_tokens (test_name_len a) (first_statment_seen a) 0 0 line widths)"
    by (rule ColumnAligner_line_result(1) [OF assms])
  have l: "length line' = length line" unfolding eq by (rule align_tokens_length)
  have d: "drop (length widths) line' = drop (length widths) line"
    unfolding eq by (rule align_tokens_unpaired)
  have "line' ! i = line ! i" if "length widths \<le> i" "i < length line" for i
  proof -
    have "line' ! i = drop (length widths) line' ! (i - length widths)"
      using that l by simp
    also have "\<dots> = drop (length widths) line ! (i - length widths)" by (simp only: d)
    also have "\<dots> = line ! i" using that by simp
    finally show ?thesis .
  qed
  then show ?thesis using l d by blast
qed

text \<open>
  C10. The tokens of a line are paired with the widths of the line (merged or not); a token
  at a position at or beyond the number of widths is not reached by the loop and stays
  exactly as it was, and the line keeps its length.
\<close>

theorem unpaired_tokens_unchanged:
  assumes "ColumnAligner_line a line = Inr (a', line')" and "line_widths a line = Inr widths"
  shows "length line' = length line
    \<and> drop (length widths) line' = drop (length widths) line
    \<and> (\<forall>i. length widths \<le> i \<and> i < length line \<longrightarrow> line' ! i = line ! i)"
  by (rule ColumnAligner_line_unpaired [OF assms])

theorem unpaired_tokens_unchanged_witness:
  "ColumnAligner_line
     \<lparr>ca_widths = [3, 4], test_name_len = 5, ca_indent = 1, first_statment_seen = True\<rparr>
     [\<lparr>tk_type = KEYWORD, tk_value = ''Log''\<rparr>, \<lparr>tk_type = ARGUMENT, tk_value = ''hello''\<rparr>]
   = Inr (\<lparr>ca_widths = [3, 4], test_name_len = 5, ca_indent = 1, first_statment_seen = True\<rparr>,
          [\<lparr>tk_type = KEYWORD, tk_value = ''       Log''\<rparr>,
           \<lparr>tk_type = ARGUMENT, tk_value = ''hello''\<rparr>])
   \<and> line_widths
     \<lparr>ca_widths = [3, 4], test_name_len = 5, ca_indent = 1, first_statment_seen = True\<rparr>
     [\<lparr>tk_type = KEYWORD, tk_value = ''Log''\<rparr>, \<lparr>tk_type = ARGUMENT, tk_value = ''hello''\<rparr>]
   = Inr [7]
   \<and> drop (length [7 :: int])
        [\<lparr>tk_type = KEYWORD, tk_value = ''       Log''\<rparr>,
         \<lparr>tk_type = ARGUMENT, tk_value = ''hello''\<rparr>]
     = drop (length [7 :: int])
        [\<lparr>tk_type = KEYWORD, tk_value = ''Log''\<rparr>, \<lparr>tk_type = ARGUMENT, tk_value = ''hello''\<rparr>]"
proof -
  have run: "ColumnAligner_line
     \<lparr>ca_widths = [3, 4], test_name_len = 5, ca_indent = 1, first_statment_seen = True\<rparr>
     [\<lparr>tk_type = KEYWORD, tk_value = ''Log''\<rparr>, \<lparr>tk_type = ARGUMENT, tk_value = ''hello''\<rparr>]
   = Inr (\<lparr>ca_widths = [3, 4], test_name_len = 5, ca_indent = 1, first_statment_seen = True\<rparr>,
          [\<lparr>tk_type = KEYWORD, tk_value = ''       Log''\<rparr>,
           \<lparr>tk_type = ARGUMENT, tk_value = ''hello''\<rparr>])"
    by code_simp
  have ws: "line_widths
     \<lparr>ca_widths = [3, 4], test_name_len = 5, ca_indent = 1, first_statment_seen = True\<rparr>
     [\<lparr>tk_type = KEYWORD, tk_value = ''Log''\<rparr>, \<lparr>tk_type = ARGUMENT, tk_value = ''hello''\<rparr>]
   = Inr [7]"
    by code_simp
  show ?thesis using run ws unpaired_tokens_unchanged [OF run ws] by blast
qed

lemma token_eqI: "tk_type (x :: token) = tk_type y \<Longrightarrow> tk_value x = tk_value y \<Longrightarrow> x = y"
  by (cases x, cases y) simp

lemma ColumnAligner_line_type:
  assumes "ColumnAligner_line a line = Inr (a', line')" and "line_widths a line = Inr widths"
    and "i < length line"
  shows "tk_type (line' ! i) = tk_type (line ! i)"
proof -
  have eq: "line' = fst (align_tokens (test_name_len a) (first_statment_seen a) 0 0 line widths)"
    by (rule ColumnAligner_line_result(1) [OF assms(1,2)])
  have l: "length line' = length line" unfolding eq by (rule align_tokens_length)
  have "map tk_type line' ! i = map tk_type line ! i"
    unfolding eq by (simp only: align_tokens_types)
  then show ?thesis using assms(3) l by simp
qed

lemma exp_pos_at_Suc:
  "Suc i < length ws \<Longrightarrow> exp_pos_at ws c (Suc i) = exp_pos_at ws c i + ws ! Suc i"
  by (simp add: exp_pos_at_def take_Suc_conv_app_nth [of "Suc i" ws])

lemma line_pos_at_Suc:
  "i < length l \<Longrightarrow> line_pos_at l (Suc i) = line_pos_at l i + len (tk_value (l ! i))"
  by (simp add: line_pos_at_def take_Suc_conv_app_nth [of i l])

lemma len_spaces_ge: "n \<le> len (spaces n @ s) - len s"
  by (simp add: len_def spaces_def)

lemma ColumnAligner_line_next_unpadded:
  assumes "ColumnAligner_line a line = Inr (a', line')" and "line_widths a line = Inr widths"
    and "Suc i < length line" and "Suc i < length widths"
    and "widths ! Suc i \<le> len (tk_value (line ! i))"
  shows "line' ! Suc i = line ! Suc i"
proof -
  have i: "i < length line" "i < length widths" using assms(3,4) by simp_all
  have l: "length line' = length line"
    using ColumnAligner_line_unpaired [OF assms(1,2)] by blast
  define E where "E = exp_pos_at widths (subtracted a) i"
  define L where "L = line_pos_at line' i"
  have "tk_value (line' ! i) = spaces (E - L) @ tk_value (line ! i)"
    unfolding E_def L_def by (rule ColumnAligner_line_value [OF assms(1,2) i])
  then have "E - L \<le> len (tk_value (line' ! i)) - len (tk_value (line ! i))"
    using len_spaces_ge [of "E - L" "tk_value (line ! i)"] by simp
  then have "E + widths ! Suc i \<le> L + len (tk_value (line' ! i))"
    using assms(5) by linarith
  then have over: "exp_pos_at widths (subtracted a) (Suc i) \<le> line_pos_at line' (Suc i)"
    using exp_pos_at_Suc [OF assms(4), of "subtracted a"] line_pos_at_Suc [of i line'] i l
    by (simp add: E_def L_def)
  have "tk_value (line' ! Suc i) =
      spaces (exp_pos_at widths (subtracted a) (Suc i) - line_pos_at line' (Suc i))
        @ tk_value (line ! Suc i)"
    by (rule ColumnAligner_line_value [OF assms(1,2,3,4)])
  then have "tk_value (line' ! Suc i) = tk_value (line ! Suc i)"
    using over by (simp add: spaces_def)
  then show ?thesis
    using ColumnAligner_line_type [OF assms(1,2,3)] by (intro token_eqI) simp_all
qed

text \<open>
  C6, as amended. Every token that the ColumnAligner pairs with a width receives
  \<open>max (exp_pos - line_pos) 0\<close> spaces in front of its text, never a negative number, and
  every token of the line keeps its type and its text as a suffix of the new text: nothing
  is truncated. A token at which \<open>line_pos\<close> has already reached or passed \<open>exp_pos\<close>,
  because the text before it overran its columns, receives no padding and is left as it
  was; the overrun stays in \<open>line_pos\<close>, which is cumulative. So a token whose own text is
  as long as the next width or longer leaves no padding for the token that follows it.
\<close>

theorem padding_never_negative:
  assumes "ColumnAligner_line a line = Inr (a', line')" and "line_widths a line = Inr widths"
    and "i < length line"
  shows "tk_type (line' ! i) = tk_type (line ! i)
    \<and> (\<exists>n. tk_value (line' ! i) = replicate n space @ tk_value (line ! i))
    \<and> (i < length widths \<longrightarrow>
         tk_value (line' ! i) =
           replicate (nat (max (exp_pos_at widths (subtracted a) i - line_pos_at line' i) 0)) space
             @ tk_value (line ! i))
    \<and> (i < length widths \<and> exp_pos_at widths (subtracted a) i \<le> line_pos_at line' i \<longrightarrow>
         line' ! i = line ! i)
    \<and> (Suc i < length line \<and> Suc i < length widths
        \<and> widths ! Suc i \<le> len (tk_value (line ! i)) \<longrightarrow>
         line' ! Suc i = line ! Suc i)"
proof -
  have nxt: "line' ! Suc i = line ! Suc i"
    if "Suc i < length line" "Suc i < length widths"
      "widths ! Suc i \<le> len (tk_value (line ! i))"
    using that by (rule ColumnAligner_line_next_unpadded [OF assms(1,2)])
  have ty: "tk_type (line' ! i) = tk_type (line ! i)"
    by (rule ColumnAligner_line_type [OF assms])
  have val: "tk_value (line' ! i) =
      replicate (nat (max (exp_pos_at widths (subtracted a) i - line_pos_at line' i) 0)) space
        @ tk_value (line ! i)" if "i < length widths"
    using ColumnAligner_line_value [OF assms(1,2,3) that] spaces_max
    by (simp add: spaces_def)
  have same: "line' ! i = line ! i" if "length widths \<le> i"
    using ColumnAligner_line_unpaired [OF assms(1,2)] that assms(3) by blast
  have ex: "\<exists>n. tk_value (line' ! i) = replicate n space @ tk_value (line ! i)"
  proof (cases "i < length widths")
    case True
    then show ?thesis using val by blast
  next
    case False
    then have "tk_value (line' ! i) = replicate 0 space @ tk_value (line ! i)"
      using same by simp
    then show ?thesis by blast
  qed
  have zero: "line' ! i = line ! i"
    if "i < length widths" "exp_pos_at widths (subtracted a) i \<le> line_pos_at line' i"
  proof (rule token_eqI [OF ty])
    show "tk_value (line' ! i) = tk_value (line ! i)"
      using val [OF that(1)] that(2) by simp
  qed
  show ?thesis using ty ex val zero nxt by blast
qed

theorem padding_never_negative_witness:
  "ColumnAligner_line
     \<lparr>ca_widths = [4, 2], test_name_len = 5, ca_indent = 0, first_statment_seen = True\<rparr>
     [\<lparr>tk_type = KEYWORD, tk_value = ''Long Keyword''\<rparr>, \<lparr>tk_type = ARGUMENT, tk_value = ''x''\<rparr>]
   = Inr (\<lparr>ca_widths = [4, 2], test_name_len = 5, ca_indent = 0, first_statment_seen = True\<rparr>,
          [\<lparr>tk_type = KEYWORD, tk_value = ''    Long Keyword''\<rparr>,
           \<lparr>tk_type = ARGUMENT, tk_value = ''x''\<rparr>])
   \<and> line_widths
     \<lparr>ca_widths = [4, 2], test_name_len = 5, ca_indent = 0, first_statment_seen = True\<rparr>
     [\<lparr>tk_type = KEYWORD, tk_value = ''Long Keyword''\<rparr>, \<lparr>tk_type = ARGUMENT, tk_value = ''x''\<rparr>]
   = Inr [4, 2]
   \<and> exp_pos_at [4, 2]
        (subtracted \<lparr>ca_widths = [4, 2], test_name_len = 5, ca_indent = 0,
                     first_statment_seen = True\<rparr>) 1
     \<le> line_pos_at [\<lparr>tk_type = KEYWORD, tk_value = ''    Long Keyword''\<rparr>,
                     \<lparr>tk_type = ARGUMENT, tk_value = ''x''\<rparr>] 1
   \<and> [\<lparr>tk_type = KEYWORD, tk_value = ''    Long Keyword''\<rparr>,
       \<lparr>tk_type = ARGUMENT, tk_value = ''x''\<rparr>] ! 1
     = [\<lparr>tk_type = KEYWORD, tk_value = ''Long Keyword''\<rparr>,
        \<lparr>tk_type = ARGUMENT, tk_value = ''x''\<rparr>] ! 1
   \<and> [4, 2] ! Suc 0 \<le> len ''Long Keyword''"
proof -
  have run: "ColumnAligner_line
     \<lparr>ca_widths = [4, 2], test_name_len = 5, ca_indent = 0, first_statment_seen = True\<rparr>
     [\<lparr>tk_type = KEYWORD, tk_value = ''Long Keyword''\<rparr>, \<lparr>tk_type = ARGUMENT, tk_value = ''x''\<rparr>]
   = Inr (\<lparr>ca_widths = [4, 2], test_name_len = 5, ca_indent = 0, first_statment_seen = True\<rparr>,
          [\<lparr>tk_type = KEYWORD, tk_value = ''    Long Keyword''\<rparr>,
           \<lparr>tk_type = ARGUMENT, tk_value = ''x''\<rparr>])"
    by code_simp
  have ws: "line_widths
     \<lparr>ca_widths = [4, 2], test_name_len = 5, ca_indent = 0, first_statment_seen = True\<rparr>
     [\<lparr>tk_type = KEYWORD, tk_value = ''Long Keyword''\<rparr>, \<lparr>tk_type = ARGUMENT, tk_value = ''x''\<rparr>]
   = Inr [4, 2]"
    by code_simp
  have over: "exp_pos_at [4, 2]
        (subtracted \<lparr>ca_widths = [4, 2], test_name_len = 5, ca_indent = 0,
                     first_statment_seen = True\<rparr>) 1
     \<le> line_pos_at [\<lparr>tk_type = KEYWORD, tk_value = ''    Long Keyword''\<rparr>,
                     \<lparr>tk_type = ARGUMENT, tk_value = ''x''\<rparr>] 1"
    by (simp add: exp_pos_at_def subtracted_def line_pos_at_def len_def)
  have long: "[4, 2] ! Suc 0 \<le> len ''Long Keyword''"
    by (simp add: len_def)
  show ?thesis
    using run ws over long padding_never_negative [OF run ws, of 1]
      padding_never_negative [OF run ws, of 0]
    by simp
qed

text \<open>
  C6 as stated fails in its last part: the padding of a token does not depend on the
  token's own length. The keyword below is 28 characters long, its width is 18, and it
  receives 18 spaces.
\<close>

theorem overlong_token_padded_counterexample:
  "ColumnAligner_line
     \<lparr>ca_widths = [18, 6], test_name_len = 5, ca_indent = 0, first_statment_seen = True\<rparr>
     [\<lparr>tk_type = KEYWORD, tk_value = ''Run Keyword And Ignore Error''\<rparr>]
   = Inr (\<lparr>ca_widths = [18, 6], test_name_len = 5, ca_indent = 0, first_statment_seen = True\<rparr>,
          [\<lparr>tk_type = KEYWORD,
            tk_value = replicate 18 CHR '' '' @ ''Run Keyword And Ignore Error''\<rparr>])
   \<and> line_widths
     \<lparr>ca_widths = [18, 6], test_name_len = 5, ca_indent = 0, first_statment_seen = True\<rparr>
     [\<lparr>tk_type = KEYWORD, tk_value = ''Run Keyword And Ignore Error''\<rparr>]
   = Inr [18, 6]
   \<and> 18 < len ''Run Keyword And Ignore Error''"
  by (simp add: ColumnAligner_line_def line_widths_def and_then_def spaces_def space_def
      len_def)






















section \<open>More properties of the Writer\<close>

lemma write_statement_headers:
  "test_case_section_headers (write_statement w s nl) = test_case_section_headers w"
  by (simp add: write_statement_eq)

lemma foldl_keeps:
  assumes "\<And>w x. h (f w x) = h w"
  shows "h (foldl f w xs) = h w"
  by (induction xs arbitrary: w) (simp_all add: assms)

lemma Writer_visit_ForLoop_headers:
  "test_case_section_headers (Writer_visit_ForLoop w fl) = test_case_section_headers w"
proof -
  have "test_case_section_headers (foldl (\<lambda>w s. write_statement w s True) v ss) =
      test_case_section_headers v" for v ss
    by (rule foldl_keeps) (rule write_statement_headers)
  then show ?thesis
    by (simp add: Writer_visit_ForLoop_def Let_def write_statement_headers)
qed

lemma Writer_body_item_headers:
  "test_case_section_headers (Writer_body_item w x) = test_case_section_headers w"
  by (cases x) (simp_all add: write_statement_headers Writer_visit_ForLoop_headers)

lemma Writer_body_headers:
  "test_case_section_headers (foldl Writer_body_item w xs) = test_case_section_headers w"
  by (rule foldl_keeps) (rule Writer_body_item_headers)

lemma Writer_visit_TestOrKeyword_headers:
  "Writer_visit_TestOrKeyword w n = Inr w' \<Longrightarrow>
   test_case_section_headers w' = test_case_section_headers w"
  by (auto simp: Writer_visit_TestOrKeyword_def and_then_def Let_def output_write_def
      Writer_body_headers write_statement_headers split: sum.splits if_splits)

lemma Writer_section_item_headers:
  "Writer_section_item w x = Inr w' \<Longrightarrow>
   test_case_section_headers w' = test_case_section_headers w"
  by (cases x) (auto simp: write_statement_headers dest: Writer_visit_TestOrKeyword_headers)

lemma Writer_section_items_headers:
  "Writer_section_items w xs = Inr w' \<Longrightarrow>
   test_case_section_headers w' = test_case_section_headers w"
proof (induction xs arbitrary: w)
  case Nil
  then show ?case by simp
next
  case (Cons x xs)
  then obtain w1 where a: "Writer_section_item w x = Inr w1"
    and b: "Writer_section_items w1 xs = Inr w'"
    by (auto split: sum.splits)
  show ?case using Cons.IH [OF b] Writer_section_item_headers [OF a] by simp
qed



lemma Writer_enter_Section_truthy:
  assumes "\<not> truthy (test_case_section_headers w)"
  shows "truthy (test_case_section_headers (Writer_enter_Section w sec)) =
     (sec_type sec = TESTCASE_HEADER \<and> 1 < length (tokens (sec_header sec)))"
proof -
  have "1 < length (tokens (sec_header sec)) \<Longrightarrow> header_widths sec \<noteq> []"
    by (auto simp: header_widths_def)
  then show ?thesis
    using assms by (auto simp: Writer_enter_Section_def Let_def output_write_def)
qed



section \<open>Properties of the Aligner\<close>












lemma Writer_visit_TestOrKeyword_ok:
  "\<not> truthy (test_case_section_headers w) \<Longrightarrow> \<exists>w'. Writer_visit_TestOrKeyword w n = Inr w'"
  by (simp add: Writer_visit_TestOrKeyword_def name_write_newline_def and_then_def Let_def
      output_write_def)

lemma Writer_section_items_ok:
  "\<not> truthy (test_case_section_headers w) \<Longrightarrow> \<exists>w'. Writer_section_items w xs = Inr w'"
proof (induction xs arbitrary: w)
  case Nil
  then show ?case by simp
next
  case (Cons x xs)
  obtain w1 where a: "Writer_section_item w x = Inr w1"
    using Cons.prems Writer_visit_TestOrKeyword_ok [of w] by (cases x) auto
  then have "\<not> truthy (test_case_section_headers w1)"
    using Writer_section_item_headers [OF a] Cons.prems by simp
  then obtain w' where "Writer_section_items w1 xs = Inr w'"
    using Cons.IH by blast
  then show ?case using a by simp
qed


text \<open>
  C1, as amended. The ColumnWidthCounter and the ColumnAligner are run on a section exactly
  when its type is \<open>TESTCASE_HEADER\<close> and its header has more than one token. A keyword
  section, like every section that is neither a setting, a variable nor a test case
  section, is returned by the Aligner as it came, whatever its header.
\<close>

theorem aligner_only_test_case_sections:
  "(sec_type sec = TESTCASE_HEADER \<and> 1 < length (tokens (sec_header sec)) \<longrightarrow>
      Aligner_visit_Section sec =
        and_then (ColumnWidthCounter_visit (ColumnWidthCounter_init (header_widths sec)) sec)
          (\<lambda>(counter, sec1).
        and_then (ColumnAligner_visit (ColumnAligner_init (butlast (cw_widths counter))) sec1)
          (\<lambda>(aligner, sec2). Inr sec2)))
   \<and> (sec_type sec = KEYWORD_HEADER \<longrightarrow> Aligner_visit_Section sec = Inr sec)
   \<and> (sec_type sec \<noteq> SETTING_HEADER \<and> sec_type sec \<noteq> VARIABLE_HEADER
       \<and> sec_type sec \<noteq> TESTCASE_HEADER \<longrightarrow> Aligner_visit_Section sec = Inr sec)"
  by (simp add: Aligner_visit_Section_def)

lemma aligner_example_test_cases: "Aligner_visit_Section
     \<lparr>sec_type = TESTCASE_HEADER,
       sec_header = \<lparr>st_type = TESTCASE_HEADER, lines =
             [[\<lparr>tk_type = TESTCASE_HEADER, tk_value = ''*** Test Cases ***''\<rparr>,
               \<lparr>tk_type = TESTCASE_HEADER, tk_value = ''Action''\<rparr>,
               \<lparr>tk_type = TESTCASE_HEADER, tk_value = ''Argument''\<rparr>]]\<rparr>,
       sec_body = [STestOrKeyword \<lparr>tk_name = \<lparr>st_type = NAME, lines =
             [[\<lparr>tk_type = NAME, tk_value = ''Short''\<rparr>]]\<rparr>,
           tk_body = [BStatement \<lparr>st_type = KEYWORD, lines =
             [[\<lparr>tk_type = KEYWORD, tk_value = ''Log''\<rparr>,
               \<lparr>tk_type = ARGUMENT, tk_value = ''hello''\<rparr>]]\<rparr>]\<rparr>]\<rparr> = Inr
     \<lparr>sec_type = TESTCASE_HEADER,
       sec_header = \<lparr>st_type = TESTCASE_HEADER, lines =
             [[\<lparr>tk_type = TESTCASE_HEADER, tk_value = ''*** Test Cases ***''\<rparr>,
               \<lparr>tk_type = TESTCASE_HEADER, tk_value = ''Action''\<rparr>,
               \<lparr>tk_type = TESTCASE_HEADER, tk_value = ''Argument''\<rparr>]]\<rparr>,
       sec_body = [STestOrKeyword \<lparr>tk_name = \<lparr>st_type = NAME, lines =
             [[\<lparr>tk_type = NAME, tk_value = ''Short''\<rparr>]]\<rparr>,
           tk_body = [BStatement \<lparr>st_type = KEYWORD, lines =
             [[\<lparr>tk_type = KEYWORD, tk_value = ''             Log''\<rparr>,
               \<lparr>tk_type = ARGUMENT, tk_value = ''   hello''\<rparr>]]\<rparr>]\<rparr>]\<rparr>"
  by code_simp

theorem aligner_only_test_case_sections_witness:
  "sec_type
     \<lparr>sec_type = KEYWORD_HEADER,
       sec_header = \<lparr>st_type = KEYWORD_HEADER, lines =
             [[\<lparr>tk_type = KEYWORD_HEADER, tk_value = ''*** Keywords ***''\<rparr>,
               \<lparr>tk_type = KEYWORD_HEADER, tk_value = ''Action''\<rparr>,
               \<lparr>tk_type = KEYWORD_HEADER, tk_value = ''Argument''\<rparr>]]\<rparr>,
       sec_body = [STestOrKeyword \<lparr>tk_name = \<lparr>st_type = NAME, lines =
             [[\<lparr>tk_type = NAME, tk_value = ''Short''\<rparr>]]\<rparr>,
           tk_body = [BStatement \<lparr>st_type = KEYWORD, lines =
             [[\<lparr>tk_type = KEYWORD, tk_value = ''Log''\<rparr>,
               \<lparr>tk_type = ARGUMENT, tk_value = ''hello''\<rparr>]]\<rparr>]\<rparr>]\<rparr> = KEYWORD_HEADER
   \<and> Aligner_visit_Section
     \<lparr>sec_type = KEYWORD_HEADER,
       sec_header = \<lparr>st_type = KEYWORD_HEADER, lines =
             [[\<lparr>tk_type = KEYWORD_HEADER, tk_value = ''*** Keywords ***''\<rparr>,
               \<lparr>tk_type = KEYWORD_HEADER, tk_value = ''Action''\<rparr>,
               \<lparr>tk_type = KEYWORD_HEADER, tk_value = ''Argument''\<rparr>]]\<rparr>,
       sec_body = [STestOrKeyword \<lparr>tk_name = \<lparr>st_type = NAME, lines =
             [[\<lparr>tk_type = NAME, tk_value = ''Short''\<rparr>]]\<rparr>,
           tk_body = [BStatement \<lparr>st_type = KEYWORD, lines =
             [[\<lparr>tk_type = KEYWORD, tk_value = ''Log''\<rparr>,
               \<lparr>tk_type = ARGUMENT, tk_value = ''hello''\<rparr>]]\<rparr>]\<rparr>]\<rparr> = Inr
     \<lparr>sec_type = KEYWORD_HEADER,
       sec_header = \<lparr>st_type = KEYWORD_HEADER, lines =
             [[\<lparr>tk_type = KEYWORD_HEADER, tk_value = ''*** Keywords ***''\<rparr>,
               \<lparr>tk_type = KEYWORD_HEADER, tk_value = ''Action''\<rparr>,
               \<lparr>tk_type = KEYWORD_HEADER, tk_value = ''Argument''\<rparr>]]\<rparr>,
       sec_body = [STestOrKeyword \<lparr>tk_name = \<lparr>st_type = NAME, lines =
             [[\<lparr>tk_type = NAME, tk_value = ''Short''\<rparr>]]\<rparr>,
           tk_body = [BStatement \<lparr>st_type = KEYWORD, lines =
             [[\<lparr>tk_type = KEYWORD, tk_value = ''Log''\<rparr>,
               \<lparr>tk_type = ARGUMENT, tk_value = ''hello''\<rparr>]]\<rparr>]\<rparr>]\<rparr>
   \<and> sec_type
     \<lparr>sec_type = TESTCASE_HEADER,
       sec_header = \<lparr>st_type = TESTCASE_HEADER, lines =
             [[\<lparr>tk_type = TESTCASE_HEADER, tk_value = ''*** Test Cases ***''\<rparr>,
               \<lparr>tk_type = TESTCASE_HEADER, tk_value = ''Action''\<rparr>,
               \<lparr>tk_type = TESTCASE_HEADER, tk_value = ''Argument''\<rparr>]]\<rparr>,
       sec_body = [STestOrKeyword \<lparr>tk_name = \<lparr>st_type = NAME, lines =
             [[\<lparr>tk_type = NAME, tk_value = ''Short''\<rparr>]]\<rparr>,
           tk_body = [BStatement \<lparr>st_type = KEYWORD, lines =
             [[\<lparr>tk_type = KEYWORD, tk_value = ''Log''\<rparr>,
               \<lparr>tk_type = ARGUMENT, tk_value = ''hello''\<rparr>]]\<rparr>]\<rparr>]\<rparr> = TESTCASE_HEADER
   \<and> 1 < length (tokens (sec_header
     \<lparr>sec_type = TESTCASE_HEADER,
       sec_header = \<lparr>st_type = TESTCASE_HEADER, lines =
             [[\<lparr>tk_type = TESTCASE_HEADER, tk_value = ''*** Test Cases ***''\<rparr>,
               \<lparr>tk_type = TESTCASE_HEADER, tk_value = ''Action''\<rparr>,
               \<lparr>tk_type = TESTCASE_HEADER, tk_value = ''Argument''\<rparr>]]\<rparr>,
       sec_body = [STestOrKeyword \<lparr>tk_name = \<lparr>st_type = NAME, lines =
             [[\<lparr>tk_type = NAME, tk_value = ''Short''\<rparr>]]\<rparr>,
           tk_body = [BStatement \<lparr>st_type = KEYWORD, lines =
             [[\<lparr>tk_type = KEYWORD, tk_value = ''Log''\<rparr>,
               \<lparr>tk_type = ARGUMENT, tk_value = ''hello''\<rparr>]]\<rparr>]\<rparr>]\<rparr>))
   \<and> Aligner_visit_Section
     \<lparr>sec_type = TESTCASE_HEADER,
       sec_header = \<lparr>st_type = TESTCASE_HEADER, lines =
             [[\<lparr>tk_type = TESTCASE_HEADER, tk_value = ''*** Test Cases ***''\<rparr>,
               \<lparr>tk_type = TESTCASE_HEADER, tk_value = ''Action''\<rparr>,
               \<lparr>tk_type = TESTCASE_HEADER, tk_value = ''Argument''\<rparr>]]\<rparr>,
       sec_body = [STestOrKeyword \<lparr>tk_name = \<lparr>st_type = NAME, lines =
             [[\<lparr>tk_type = NAME, tk_value = ''Short''\<rparr>]]\<rparr>,
           tk_body = [BStatement \<lparr>st_type = KEYWORD, lines =
             [[\<lparr>tk_type = KEYWORD, tk_value = ''Log''\<rparr>,
               \<lparr>tk_type = ARGUMENT, tk_value = ''hello''\<rparr>]]\<rparr>]\<rparr>]\<rparr> = Inr
     \<lparr>sec_type = TESTCASE_HEADER,
       sec_header = \<lparr>st_type = TESTCASE_HEADER, lines =
             [[\<lparr>tk_type = TESTCASE_HEADER, tk_value = ''*** Test Cases ***''\<rparr>,
               \<lparr>tk_type = TESTCASE_HEADER, tk_value = ''Action''\<rparr>,
               \<lparr>tk_type = TESTCASE_HEADER, tk_value = ''Argument''\<rparr>]]\<rparr>,
       sec_body = [STestOrKeyword \<lparr>tk_name = \<lparr>st_type = NAME, lines =
             [[\<lparr>tk_type = NAME, tk_value = ''Short''\<rparr>]]\<rparr>,
           tk_body = [BStatement \<lparr>st_type = KEYWORD, lines =
             [[\<lparr>tk_type = KEYWORD, tk_value = ''             Log''\<rparr>,
               \<lparr>tk_type = ARGUMENT, tk_value = ''   hello''\<rparr>]]\<rparr>]\<rparr>]\<rparr>"
  using aligner_only_test_case_sections [of "
     \<lparr>sec_type = KEYWORD_HEADER,
       sec_header = \<lparr>st_type = KEYWORD_HEADER, lines =
             [[\<lparr>tk_type = KEYWORD_HEADER, tk_value = ''*** Keywords ***''\<rparr>,
               \<lparr>tk_type = KEYWORD_HEADER, tk_value = ''Action''\<rparr>,
               \<lparr>tk_type = KEYWORD_HEADER, tk_value = ''Argument''\<rparr>]]\<rparr>,
       sec_body = [STestOrKeyword \<lparr>tk_name = \<lparr>st_type = NAME, lines =
             [[\<lparr>tk_type = NAME, tk_value = ''Short''\<rparr>]]\<rparr>,
           tk_body = [BStatement \<lparr>st_type = KEYWORD, lines =
             [[\<lparr>tk_type = KEYWORD, tk_value = ''Log''\<rparr>,
               \<lparr>tk_type = ARGUMENT, tk_value = ''hello''\<rparr>]]\<rparr>]\<rparr>]\<rparr>"]
    aligner_only_test_case_sections [of "
     \<lparr>sec_type = TESTCASE_HEADER,
       sec_header = \<lparr>st_type = TESTCASE_HEADER, lines =
             [[\<lparr>tk_type = TESTCASE_HEADER, tk_value = ''*** Test Cases ***''\<rparr>,
               \<lparr>tk_type = TESTCASE_HEADER, tk_value = ''Action''\<rparr>,
               \<lparr>tk_type = TESTCASE_HEADER, tk_value = ''Argument''\<rparr>]]\<rparr>,
       sec_body = [STestOrKeyword \<lparr>tk_name = \<lparr>st_type = NAME, lines =
             [[\<lparr>tk_type = NAME, tk_value = ''Short''\<rparr>]]\<rparr>,
           tk_body = [BStatement \<lparr>st_type = KEYWORD, lines =
             [[\<lparr>tk_type = KEYWORD, tk_value = ''Log''\<rparr>,
               \<lparr>tk_type = ARGUMENT, tk_value = ''hello''\<rparr>]]\<rparr>]\<rparr>]\<rparr>"]
    aligner_example_test_cases
  by (simp add: tokens_def)

text \<open>
  C1 as stated fails: a keyword section with three header columns comes back from the
  Aligner without any padding, while the test case section with the same block is padded.
\<close>

theorem keyword_section_not_aligned_counterexample:
  "Aligner_visit_Section
     \<lparr>sec_type = KEYWORD_HEADER,
       sec_header = \<lparr>st_type = KEYWORD_HEADER, lines =
             [[\<lparr>tk_type = KEYWORD_HEADER, tk_value = ''*** Keywords ***''\<rparr>,
               \<lparr>tk_type = KEYWORD_HEADER, tk_value = ''Action''\<rparr>,
               \<lparr>tk_type = KEYWORD_HEADER, tk_value = ''Argument''\<rparr>]]\<rparr>,
       sec_body = [STestOrKeyword \<lparr>tk_name = \<lparr>st_type = NAME, lines =
             [[\<lparr>tk_type = NAME, tk_value = ''Short''\<rparr>]]\<rparr>,
           tk_body = [BStatement \<lparr>st_type = KEYWORD, lines =
             [[\<lparr>tk_type = KEYWORD, tk_value = ''Log''\<rparr>,
               \<lparr>tk_type = ARGUMENT, tk_value = ''hello''\<rparr>]]\<rparr>]\<rparr>]\<rparr> = Inr
     \<lparr>sec_type = KEYWORD_HEADER,
       sec_header = \<lparr>st_type = KEYWORD_HEADER, lines =
             [[\<lparr>tk_type = KEYWORD_HEADER, tk_value = ''*** Keywords ***''\<rparr>,
               \<lparr>tk_type = KEYWORD_HEADER, tk_value = ''Action''\<rparr>,
               \<lparr>tk_type = KEYWORD_HEADER, tk_value = ''Argument''\<rparr>]]\<rparr>,
       sec_body = [STestOrKeyword \<lparr>tk_name = \<lparr>st_type = NAME, lines =
             [[\<lparr>tk_type = NAME, tk_value = ''Short''\<rparr>]]\<rparr>,
           tk_body = [BStatement \<lparr>st_type = KEYWORD, lines =
             [[\<lparr>tk_type = KEYWORD, tk_value = ''Log''\<rparr>,
               \<lparr>tk_type = ARGUMENT, tk_value = ''hello''\<rparr>]]\<rparr>]\<rparr>]\<rparr>
   \<and> Aligner_visit_Section
     \<lparr>sec_type = TESTCASE_HEADER,
       sec_header = \<lparr>st_type = TESTCASE_HEADER, lines =
             [[\<lparr>tk_type = TESTCASE_HEADER, tk_value = ''*** Test Cases ***''\<rparr>,
               \<lparr>tk_type = TESTCASE_HEADER, tk_value = ''Action''\<rparr>,
               \<lparr>tk_type = TESTCASE_HEADER, tk_value = ''Argument''\<rparr>]]\<rparr>,
       sec_body = [STestOrKeyword \<lparr>tk_name = \<lparr>st_type = NAME, lines =
             [[\<lparr>tk_type = NAME, tk_value = ''Short''\<rparr>]]\<rparr>,
           tk_body = [BStatement \<lparr>st_type = KEYWORD, lines =
             [[\<lparr>tk_type = KEYWORD, tk_value = ''Log''\<rparr>,
               \<lparr>tk_type = ARGUMENT, tk_value = ''hello''\<rparr>]]\<rparr>]\<rparr>]\<rparr> = Inr
     \<lparr>sec_type = TESTCASE_HEADER,
       sec_header = \<lparr>st_type = TESTCASE_HEADER, lines =
             [[\<lparr>tk_type = TESTCASE_HEADER, tk_value = ''*** Test Cases ***''\<rparr>,
               \<lparr>tk_type = TESTCASE_HEADER, tk_value = ''Action''\<rparr>,
               \<lparr>tk_type = TESTCASE_HEADER, tk_value = ''Argument''\<rparr>]]\<rparr>,
       sec_body = [STestOrKeyword \<lparr>tk_name = \<lparr>st_type = NAME, lines =
             [[\<lparr>tk_type = NAME, tk_value = ''Short''\<rparr>]]\<rparr>,
           tk_body = [BStatement \<lparr>st_type = KEYWORD, lines =
             [[\<lparr>tk_type = KEYWORD, tk_value = ''             Log''\<rparr>,
               \<lparr>tk_type = ARGUMENT, tk_value = ''   hello''\<rparr>]]\<rparr>]\<rparr>]\<rparr>"
  using aligner_example_test_cases by (simp add: Aligner_visit_Section_def)





text \<open>
  C3, as amended. A test case section whose header has no token, or one only, raises no
  fault: the Aligner returns it untouched, and the Writer, coming from a state in which the
  headers field is unset, writes the section, every name with its newline.
\<close>

theorem empty_header_no_fault:
  assumes "sec_type sec = TESTCASE_HEADER" and "length (tokens (sec_header sec)) \<le> 1"
    and "\<not> truthy (test_case_section_headers w)"
  shows "Aligner_visit_Section sec = Inr sec
    \<and> (\<exists>w'. Writer_visit_Section w sec = Inr w')
    \<and> (Writer_section_items
          (write_statement (Writer_enter_Section w sec) (sec_header sec) True) items = Inr w1
        \<longrightarrow> name_write_newline w1 node = Inr True)"
proof -
  have a: "Aligner_visit_Section sec = Inr sec"
    using assms(1,2) by (simp add: Aligner_visit_Section_def)
  have f: "\<not> truthy (test_case_section_headers (Writer_enter_Section w sec))"
    using Writer_enter_Section_truthy [OF assms(3), of sec] assms(2) by simp
  then have f2: "\<not> truthy (test_case_section_headers
      (write_statement (Writer_enter_Section w sec) (sec_header sec) True))"
    by (simp add: write_statement_headers)
  obtain w3 where "Writer_section_items
      (write_statement (Writer_enter_Section w sec) (sec_header sec) True) (sec_body sec)
      = Inr w3"
    using Writer_section_items_ok [OF f2] by blast
  then have b: "\<exists>w'. Writer_visit_Section w sec = Inr w'"
    by (simp add: Writer_visit_Section_def Let_def and_then_def)
  have c: "name_write_newline w1 node = Inr True"
    if "Writer_section_items
          (write_statement (Writer_enter_Section w sec) (sec_header sec) True) items = Inr w1"
    using Writer_section_items_headers [OF that] f2 by (simp add: name_write_newline_def)
  show ?thesis using a b c by blast
qed

theorem empty_header_no_fault_witness:
  "sec_type
     \<lparr>sec_type = TESTCASE_HEADER,
       sec_header = \<lparr>st_type = TESTCASE_HEADER, lines = []\<rparr>,
       sec_body = [STestOrKeyword \<lparr>tk_name = \<lparr>st_type = NAME, lines =
             [[\<lparr>tk_type = NAME, tk_value = ''Short''\<rparr>]]\<rparr>,
           tk_body = [BStatement \<lparr>st_type = KEYWORD, lines =
             [[\<lparr>tk_type = KEYWORD, tk_value = ''Log''\<rparr>,
               \<lparr>tk_type = ARGUMENT, tk_value = ''hello''\<rparr>]]\<rparr>]\<rparr>]\<rparr> = TESTCASE_HEADER
   \<and> length (tokens (sec_header
     \<lparr>sec_type = TESTCASE_HEADER,
       sec_header = \<lparr>st_type = TESTCASE_HEADER, lines = []\<rparr>,
       sec_body = [STestOrKeyword \<lparr>tk_name = \<lparr>st_type = NAME, lines =
             [[\<lparr>tk_type = NAME, tk_value = ''Short''\<rparr>]]\<rparr>,
           tk_body = [BStatement \<lparr>st_type = KEYWORD, lines =
             [[\<lparr>tk_type = KEYWORD, tk_value = ''Log''\<rparr>,
               \<lparr>tk_type = ARGUMENT, tk_value = ''hello''\<rparr>]]\<rparr>]\<rparr>]\<rparr>)) \<le> 1
   \<and> \<not> truthy (test_case_section_headers (Writer_init
     \<lparr>pipe_separated = False, txt_separating_spaces = 4\<rparr>))
   \<and> Aligner_visit_Section
     \<lparr>sec_type = TESTCASE_HEADER,
       sec_header = \<lparr>st_type = TESTCASE_HEADER, lines = []\<rparr>,
       sec_body = [STestOrKeyword \<lparr>tk_name = \<lparr>st_type = NAME, lines =
             [[\<lparr>tk_type = NAME, tk_value = ''Short''\<rparr>]]\<rparr>,
           tk_body = [BStatement \<lparr>st_type = KEYWORD, lines =
             [[\<lparr>tk_type = KEYWORD, tk_value = ''Log''\<rparr>,
               \<lparr>tk_type = ARGUMENT, tk_value = ''hello''\<rparr>]]\<rparr>]\<rparr>]\<rparr> = Inr
     \<lparr>sec_type = TESTCASE_HEADER,
       sec_header = \<lparr>st_type = TESTCASE_HEADER, lines = []\<rparr>,
       sec_body = [STestOrKeyword \<lparr>tk_name = \<lparr>st_type = NAME, lines =
             [[\<lparr>tk_type = NAME, tk_value = ''Short''\<rparr>]]\<rparr>,
           tk_body = [BStatement \<lparr>st_type = KEYWORD, lines =
             [[\<lparr>tk_type = KEYWORD, tk_value = ''Log''\<rparr>,
               \<lparr>tk_type = ARGUMENT, tk_value = ''hello''\<rparr>]]\<rparr>]\<rparr>]\<rparr>
   \<and> Writer_section_items
       (write_statement (Writer_enter_Section (Writer_init
     \<lparr>pipe_separated = False, txt_separating_spaces = 4\<rparr>)
     \<lparr>sec_type = TESTCASE_HEADER,
       sec_header = \<lparr>st_type = TESTCASE_HEADER, lines = []\<rparr>,
       sec_body = [STestOrKeyword \<lparr>tk_name = \<lparr>st_type = NAME, lines =
             [[\<lparr>tk_type = NAME, tk_value = ''Short''\<rparr>]]\<rparr>,
           tk_body = [BStatement \<lparr>st_type = KEYWORD, lines =
             [[\<lparr>tk_type = KEYWORD, tk_value = ''Log''\<rparr>,
               \<lparr>tk_type = ARGUMENT, tk_value = ''hello''\<rparr>]]\<rparr>]\<rparr>]\<rparr>) (sec_header
     \<lparr>sec_type = TESTCASE_HEADER,
       sec_header = \<lparr>st_type = TESTCASE_HEADER, lines = []\<rparr>,
       sec_body = [STestOrKeyword \<lparr>tk_name = \<lparr>st_type = NAME, lines =
             [[\<lparr>tk_type = NAME, tk_value = ''Short''\<rparr>]]\<rparr>,
           tk_body = [BStatement \<lparr>st_type = KEYWORD, lines =
             [[\<lparr>tk_type = KEYWORD, tk_value = ''Log''\<rparr>,
               \<lparr>tk_type = ARGUMENT, tk_value = ''hello''\<rparr>]]\<rparr>]\<rparr>]\<rparr>) True) []
     = Inr (write_statement (Writer_enter_Section (Writer_init
     \<lparr>pipe_separated = False, txt_separating_spaces = 4\<rparr>)
     \<lparr>sec_type = TESTCASE_HEADER,
       sec_header = \<lparr>st_type = TESTCASE_HEADER, lines = []\<rparr>,
       sec_body = [STestOrKeyword \<lparr>tk_name = \<lparr>st_type = NAME, lines =
             [[\<lparr>tk_type = NAME, tk_value = ''Short''\<rparr>]]\<rparr>,
           tk_body = [BStatement \<lparr>st_type = KEYWORD, lines =
             [[\<lparr>tk_type = KEYWORD, tk_value = ''Log''\<rparr>,
               \<lparr>tk_type = ARGUMENT, tk_value = ''hello''\<rparr>]]\<rparr>]\<rparr>]\<rparr>) (sec_header
     \<lparr>sec_type = TESTCASE_HEADER,
       sec_header = \<lparr>st_type = TESTCASE_HEADER, lines = []\<rparr>,
       sec_body = [STestOrKeyword \<lparr>tk_name = \<lparr>st_type = NAME, lines =
             [[\<lparr>tk_type = NAME, tk_value = ''Short''\<rparr>]]\<rparr>,
           tk_body = [BStatement \<lparr>st_type = KEYWORD, lines =
             [[\<lparr>tk_type = KEYWORD, tk_value = ''Log''\<rparr>,
               \<lparr>tk_type = ARGUMENT, tk_value = ''hello''\<rparr>]]\<rparr>]\<rparr>]\<rparr>) True)
   \<and> name_write_newline
       (write_statement (Writer_enter_Section (Writer_init
     \<lparr>pipe_separated = False, txt_separating_spaces = 4\<rparr>)
     \<lparr>sec_type = TESTCASE_HEADER,
       sec_header = \<lparr>st_type = TESTCASE_HEADER, lines = []\<rparr>,
       sec_body = [STestOrKeyword \<lparr>tk_name = \<lparr>st_type = NAME, lines =
             [[\<lparr>tk_type = NAME, tk_value = ''Short''\<rparr>]]\<rparr>,
           tk_body = [BStatement \<lparr>st_type = KEYWORD, lines =
             [[\<lparr>tk_type = KEYWORD, tk_value = ''Log''\<rparr>,
               \<lparr>tk_type = ARGUMENT, tk_value = ''hello''\<rparr>]]\<rparr>]\<rparr>]\<rparr>) (sec_header
     \<lparr>sec_type = TESTCASE_HEADER,
       sec_header = \<lparr>st_type = TESTCASE_HEADER, lines = []\<rparr>,
       sec_body = [STestOrKeyword \<lparr>tk_name = \<lparr>st_type = NAME, lines =
             [[\<lparr>tk_type = NAME, tk_value = ''Short''\<rparr>]]\<rparr>,
           tk_body = [BStatement \<lparr>st_type = KEYWORD, lines =
             [[\<lparr>tk_type = KEYWORD, tk_value = ''Log''\<rparr>,
               \<lparr>tk_type = ARGUMENT, tk_value = ''hello''\<rparr>]]\<rparr>]\<rparr>]\<rparr>) True)

     \<lparr>tk_name = \<lparr>st_type = NAME, lines =
             [[\<lparr>tk_type = NAME, tk_value = ''Short''\<rparr>]]\<rparr>,
           tk_body = [BStatement \<lparr>st_type = KEYWORD, lines =
             [[\<lparr>tk_type = KEYWORD, tk_value = ''Log''\<rparr>,
               \<lparr>tk_type = ARGUMENT, tk_value = ''hello''\<rparr>]]\<rparr>]\<rparr> = Inr True"
proof -
  have a: "sec_type
     \<lparr>sec_type = TESTCASE_HEADER,
       sec_header = \<lparr>st_type = TESTCASE_HEADER, lines = []\<rparr>,
       sec_body = [STestOrKeyword \<lparr>tk_name = \<lparr>st_type = NAME, lines =
             [[\<lparr>tk_type = NAME, tk_value = ''Short''\<rparr>]]\<rparr>,
           tk_body = [BStatement \<lparr>st_type = KEYWORD, lines =
             [[\<lparr>tk_type = KEYWORD, tk_value = ''Log''\<rparr>,
               \<lparr>tk_type = ARGUMENT, tk_value = ''hello''\<rparr>]]\<rparr>]\<rparr>]\<rparr> = TESTCASE_HEADER" by simp
  have b: "length (tokens (sec_header
     \<lparr>sec_type = TESTCASE_HEADER,
       sec_header = \<lparr>st_type = TESTCASE_HEADER, lines = []\<rparr>,
       sec_body = [STestOrKeyword \<lparr>tk_name = \<lparr>st_type = NAME, lines =
             [[\<lparr>tk_type = NAME, tk_value = ''Short''\<rparr>]]\<rparr>,
           tk_body = [BStatement \<lparr>st_type = KEYWORD, lines =
             [[\<lparr>tk_type = KEYWORD, tk_value = ''Log''\<rparr>,
               \<lparr>tk_type = ARGUMENT, tk_value = ''hello''\<rparr>]]\<rparr>]\<rparr>]\<rparr>)) \<le> 1" by (simp add: tokens_def)
  have c: "\<not> truthy (test_case_section_headers (Writer_init
     \<lparr>pipe_separated = False, txt_separating_spaces = 4\<rparr>))"
    by (simp add: Writer_init_def)
  show ?thesis
    using a b c empty_header_no_fault [OF a b c, of "[]"
        "write_statement (Writer_enter_Section (Writer_init
     \<lparr>pipe_separated = False, txt_separating_spaces = 4\<rparr>)
     \<lparr>sec_type = TESTCASE_HEADER,
       sec_header = \<lparr>st_type = TESTCASE_HEADER, lines = []\<rparr>,
       sec_body = [STestOrKeyword \<lparr>tk_name = \<lparr>st_type = NAME, lines =
             [[\<lparr>tk_type = NAME, tk_value = ''Short''\<rparr>]]\<rparr>,
           tk_body = [BStatement \<lparr>st_type = KEYWORD, lines =
             [[\<lparr>tk_type = KEYWORD, tk_value = ''Log''\<rparr>,
               \<lparr>tk_type = ARGUMENT, tk_value = ''hello''\<rparr>]]\<rparr>]\<rparr>]\<rparr>) (sec_header
     \<lparr>sec_type = TESTCASE_HEADER,
       sec_header = \<lparr>st_type = TESTCASE_HEADER, lines = []\<rparr>,
       sec_body = [STestOrKeyword \<lparr>tk_name = \<lparr>st_type = NAME, lines =
             [[\<lparr>tk_type = NAME, tk_value = ''Short''\<rparr>]]\<rparr>,
           tk_body = [BStatement \<lparr>st_type = KEYWORD, lines =
             [[\<lparr>tk_type = KEYWORD, tk_value = ''Log''\<rparr>,
               \<lparr>tk_type = ARGUMENT, tk_value = ''hello''\<rparr>]]\<rparr>]\<rparr>]\<rparr>) True"
        "
     \<lparr>tk_name = \<lparr>st_type = NAME, lines =
             [[\<lparr>tk_type = NAME, tk_value = ''Short''\<rparr>]]\<rparr>,
           tk_body = [BStatement \<lparr>st_type = KEYWORD, lines =
             [[\<lparr>tk_type = KEYWORD, tk_value = ''Log''\<rparr>,
               \<lparr>tk_type = ARGUMENT, tk_value = ''hello''\<rparr>]]\<rparr>]\<rparr>"]
    by simp
qed

text \<open>
  C3 as stated fails: a document whose test case section has no header token at all is
  written out, no fault is raised.
\<close>

theorem empty_header_rendered_counterexample:
  "DataFileWriter_write {} single_line
     \<lparr>pipe_separated = False, txt_separating_spaces = 4\<rparr> [
     \<lparr>sec_type = TESTCASE_HEADER,
       sec_header = \<lparr>st_type = TESTCASE_HEADER, lines = []\<rparr>,
       sec_body = [STestOrKeyword \<lparr>tk_name = \<lparr>st_type = NAME, lines =
             [[\<lparr>tk_type = NAME, tk_value = ''Short''\<rparr>,
               \<lparr>tk_type = EOL, tk_value = newline\<rparr>]]\<rparr>,
           tk_body = [BStatement \<lparr>st_type = KEYWORD, lines =
             [[\<lparr>tk_type = SEPARATOR, tk_value = ''    ''\<rparr>,
               \<lparr>tk_type = KEYWORD, tk_value = ''Log''\<rparr>,
               \<lparr>tk_type = SEPARATOR, tk_value = ''    ''\<rparr>,
               \<lparr>tk_type = ARGUMENT, tk_value = ''hello''\<rparr>,
               \<lparr>tk_type = EOL, tk_value = newline\<rparr>]]\<rparr>]\<rparr>]\<rparr>]
   = Inr (''Short'' @ newline @ ''    Log    hello'' @ newline)"
  by code_simp

section \<open>Properties of the SettingCleaner\<close>

lemma set_first_value_lines_concat:
  "concat ls = t # ts \<Longrightarrow> concat (set_first_value_lines v ls) = t\<lparr>tk_value := v\<rparr> # ts"
  by (induction v ls rule: set_first_value_lines.induct) simp_all

lemma set_first_value_tokens:
  assumes "tokens s = t # ts"
  shows "\<exists>s'. set_first_value v s = Inr s' \<and> st_type s' = st_type s
           \<and> tokens s' = t\<lparr>tk_value := v\<rparr> # ts"
  using assms set_first_value_lines_concat [of "lines s" t ts v]
  by (simp add: set_first_value_def tokens_def)

lemma cleaned_tags: "cleaned ''[tags]'' = ''[Tags]''"
  by code_simp

lemma cleaned_library: "cleaned ''library'' = ''Library''"
  by code_simp

text \<open>
  C8, as amended. Of a statement whose type is a setting name the SettingCleaner rewrites
  the text of the first token only, and statements of other types are left alone. A text
  without surrounding whitespace that begins with \<open>[\<close> loses its first and its last
  character, the rest is trimmed, lower-cased and title-cased and put in brackets, so
  \<open>[tags]\<close> becomes \<open>[Tags]\<close>. A text whose trimmed form does not begin with \<open>[\<close> is
  lower-cased and title-cased as a whole, untrimmed: \<open>library\<close> becomes \<open>Library\<close> and
  whitespace around the name stays.
\<close>

theorem setting_name_cleaned:
  "(st_type s \<in> SETTING_TOKENS \<and> tokens s = t # ts \<longrightarrow>
      (\<exists>s'. SettingCleaner_visit_Statement SETTING_TOKENS s = Inr s'
            \<and> st_type s' = st_type s
            \<and> tokens s' = t\<lparr>tk_value := cleaned (tk_value t)\<rparr> # ts))
   \<and> (st_type s \<notin> SETTING_TOKENS \<longrightarrow> SettingCleaner_visit_Statement SETTING_TOKENS s = Inr s)
   \<and> (strip name = name \<and> startswith name ''['' \<longrightarrow>
        cleaned name = ''['' @ title (lower (strip (strip_ends name))) @ '']'')
   \<and> (\<not> startswith (strip name) ''['' \<longrightarrow> cleaned name = title (lower name))
   \<and> cleaned ''[tags]'' = ''[Tags]''
   \<and> cleaned ''library'' = ''Library''"
proof -
  have a: "\<exists>s'. SettingCleaner_visit_Statement SETTING_TOKENS s = Inr s'
            \<and> st_type s' = st_type s
            \<and> tokens s' = t\<lparr>tk_value := cleaned (tk_value t)\<rparr> # ts"
    if "st_type s \<in> SETTING_TOKENS" "tokens s = t # ts"
    using that set_first_value_tokens [OF that(2), of "cleaned (tk_value t)"]
    by (simp add: SettingCleaner_visit_Statement_def first_value_def and_then_def)
  have b: "st_type s \<notin> SETTING_TOKENS \<longrightarrow> SettingCleaner_visit_Statement SETTING_TOKENS s = Inr s"
    by (simp add: SettingCleaner_visit_Statement_def)
  have c: "strip name = name \<and> startswith name ''['' \<longrightarrow>
        cleaned name = ''['' @ title (lower (strip (strip_ends name))) @ '']''"
    by (simp add: cleaned_def)
  have d: "\<not> startswith (strip name) ''['' \<longrightarrow> cleaned name = title (lower name)"
    by (simp add: cleaned_def)
  show ?thesis using a b c d cleaned_tags cleaned_library by blast
qed

theorem setting_name_cleaned_witness:
  "st_type \<lparr>st_type = OTHER ''TAGS'',
            lines = [[\<lparr>tk_type = OTHER ''TAGS'', tk_value = ''[tags]''\<rparr>,
                      \<lparr>tk_type = ARGUMENT, tk_value = ''smoke''\<rparr>]]\<rparr>
     \<in> {OTHER ''TAGS'', OTHER ''LIBRARY''}
   \<and> SettingCleaner_visit_Statement {OTHER ''TAGS'', OTHER ''LIBRARY''}
       \<lparr>st_type = OTHER ''TAGS'',
        lines = [[\<lparr>tk_type = OTHER ''TAGS'', tk_value = ''[tags]''\<rparr>,
                  \<lparr>tk_type = ARGUMENT, tk_value = ''smoke''\<rparr>]]\<rparr>
     = Inr \<lparr>st_type = OTHER ''TAGS'',
            lines = [[\<lparr>tk_type = OTHER ''TAGS'', tk_value = ''[Tags]''\<rparr>,
                      \<lparr>tk_type = ARGUMENT, tk_value = ''smoke''\<rparr>]]\<rparr>
   \<and> st_type \<lparr>st_type = KEYWORD, lines = [[\<lparr>tk_type = KEYWORD, tk_value = ''log''\<rparr>]]\<rparr>
     \<notin> {OTHER ''TAGS'', OTHER ''LIBRARY''}
   \<and> SettingCleaner_visit_Statement {OTHER ''TAGS'', OTHER ''LIBRARY''}
       \<lparr>st_type = KEYWORD, lines = [[\<lparr>tk_type = KEYWORD, tk_value = ''log''\<rparr>]]\<rparr>
     = Inr \<lparr>st_type = KEYWORD, lines = [[\<lparr>tk_type = KEYWORD, tk_value = ''log''\<rparr>]]\<rparr>
   \<and> strip ''[tags]'' = ''[tags]'' \<and> startswith ''[tags]'' ''[''
   \<and> \<not> startswith (strip ''library'') ''[''
   \<and> cleaned ''library'' = title (lower ''library'')"
proof -
  have run: "SettingCleaner_visit_Statement {OTHER ''TAGS'', OTHER ''LIBRARY''}
       \<lparr>st_type = OTHER ''TAGS'',
        lines = [[\<lparr>tk_type = OTHER ''TAGS'', tk_value = ''[tags]''\<rparr>,
                  \<lparr>tk_type = ARGUMENT, tk_value = ''smoke''\<rparr>]]\<rparr>
     = Inr \<lparr>st_type = OTHER ''TAGS'',
            lines = [[\<lparr>tk_type = OTHER ''TAGS'', tk_value = ''[Tags]''\<rparr>,
                      \<lparr>tk_type = ARGUMENT, tk_value = ''smoke''\<rparr>]]\<rparr>"
    by (simp add: SettingCleaner_visit_Statement_def first_value_def set_first_value_def
        tokens_def and_then_def cleaned_tags)
  have st: "strip ''[tags]'' = ''[tags]''" "startswith ''[tags]'' ''[''"
    "\<not> startswith (strip ''library'') ''[''"
    by code_simp+
  show ?thesis
    using run st
      setting_name_cleaned [of
        "\<lparr>st_type = KEYWORD, lines = [[\<lparr>tk_type = KEYWORD, tk_value = ''log''\<rparr>]]\<rparr>"
        "{OTHER ''TAGS'', OTHER ''LIBRARY''}" _ _ "''library''"]
      setting_name_cleaned [of
        "\<lparr>st_type = OTHER ''TAGS'',
          lines = [[\<lparr>tk_type = OTHER ''TAGS'', tk_value = ''[tags]''\<rparr>,
                    \<lparr>tk_type = ARGUMENT, tk_value = ''smoke''\<rparr>]]\<rparr>"
        "{OTHER ''TAGS'', OTHER ''LIBRARY''}"
        "\<lparr>tk_type = OTHER ''TAGS'', tk_value = ''[tags]''\<rparr>"
        "[\<lparr>tk_type = ARGUMENT, tk_value = ''smoke''\<rparr>]" "''[tags]''"]
    by simp
qed

text \<open>
  C8 as stated fails: a name that is not in brackets is title-cased with the whitespace
  around it, not trimmed.
\<close>

theorem setting_name_not_trimmed_counterexample:
  "cleaned '' library'' = '' Library''
   \<and> title (lower (strip '' library'')) = ''Library''"
  by code_simp

end
